theory Spec2Isabelle
  imports Complex_Main "HOL-Library.AList"
begin

section \<open>Data model (src/types/index.ts)\<close>

text \<open>
  The engine is read twice. In the first reading a TypeScript \<open>number\<close> is an exact
  \<open>real\<close>: the arithmetic is followed without rounding, and the type holds neither
  \<open>NaN\<close> nor an infinity. A computation of the source that produces one of those (a
  division by zero, arithmetic on \<open>undefined\<close>) ends in the outcome \<open>NonFinite\<close> and is
  not followed further. In the second reading, whose names end in \<open>_js\<close>, a number is
  an IEEE 754 double, \<open>NaN\<close> and the infinities included, a property of an object can be
  missing, and the fund collection inherits the properties of \<open>Object.prototype\<close>.
  A \<open>Date\<close> is its time value in milliseconds, \<open>new Date()\<close> and \<open>uuidv4()\<close> are
  parameters of the operation that calls them.
\<close>

type_synonym FundId = string
type_synonym Date = int

record FundData =
  name :: string
  description :: string
  color :: "string option"
  isTaxFund :: "bool option"

record Fund = FundData +
  fund_id :: FundId
  currentBalance :: real
  lifetimeInflow :: real
  lifetimeOutflow :: real
  createdAt :: Date
  updatedAt :: Date

datatype TransactionType = INCOME | EXPENSE

record TransactionData =
  type_t :: TransactionType
  amount :: real
  date_t :: Date
  description_t :: string
  costOfProduction :: "real option"
  profit_t :: "real option"
  sourceFundId :: "FundId option"

record Transaction = TransactionData +
  id_t :: string
  createdAt_t :: Date
  updatedAt_t :: Date

record ProfitDistribution =
  fundId :: FundId
  percentage :: real

record FinancialState =
  funds :: "FundId \<rightharpoonup> Fund"
  transactions :: "Transaction list"
  profitDistribution :: "ProfitDistribution list"
  taxEnabled :: bool
  lastUpdated :: Date

section \<open>Errors and outcomes\<close>

text \<open>A number of JavaScript: a finite value, \<open>NaN\<close>, or an infinity.\<close>

datatype jsnum = Finite real | NaN | PosInfinity | NegInfinity

text \<open>
  The text of an \<open>Error\<close>. The one template literal of the engine,
  \<open>Profit distribution must sum to 100% (currently ${total.toFixed(2)}%)\<close>,
  keeps the interpolated total as a number, of the first or of the second reading.
\<close>

datatype message = Literal string | Must_sum_to_100 real | Must_sum_to_100_js jsnum

datatype error = Error message | TypeError

datatype 'a outcome = Returns 'a | Throws error | NonFinite

fun bind_outcome :: "'a outcome \<Rightarrow> ('a \<Rightarrow> 'b outcome) \<Rightarrow> 'b outcome" where
  "bind_outcome (Returns x) f = f x"
| "bind_outcome (Throws e) f = Throws e"
| "bind_outcome NonFinite f = NonFinite"

record ValidationResult =
  isValid :: bool
  error :: "message option"

definition valid :: ValidationResult where
  "valid = \<lparr>isValid = True, error = None\<rparr>"

definition invalid :: "message \<Rightarrow> ValidationResult" where
  "invalid m = \<lparr>isValid = False, error = Some m\<rparr>"

section \<open>Pure calculations (lib/finance/calculations)\<close>

text \<open>\<open>Math.round\<close>: the nearest integer, a tie going up.\<close>

definition Math_round :: "real \<Rightarrow> real" where
  "Math_round x = of_int \<lfloor>x + 1 / 2\<rfloor>"

definition calculateProfit :: "real \<Rightarrow> real \<Rightarrow> real outcome" where
  "calculateProfit income cost =
     (if income < 0 then Throws (Error (Literal ''Income cannot be negative''))
      else if cost < 0 then Throws (Error (Literal ''Cost of production cannot be negative''))
      else if cost > income then Throws (Error (Literal ''Cost of production cannot exceed income''))
      else Returns (income - cost))"

text \<open>
  \<open>calculateProfit(amount, costOfProduction!)\<close> where the cost may be \<open>undefined\<close>: the
  comparisons with \<open>undefined\<close> are false and the difference is \<open>NaN\<close>.
\<close>

definition calculateProfit_opt :: "real \<Rightarrow> real option \<Rightarrow> real outcome" where
  "calculateProfit_opt income cost =
     (case cost of
        Some c \<Rightarrow> calculateProfit income c
      | None \<Rightarrow> if income < 0 then Throws (Error (Literal ''Income cannot be negative''))
                else NonFinite)"

text \<open>\<open>distributions.reduce((sum, dist) => sum + dist.percentage, 0)\<close>\<close>

definition total_percentage :: "ProfitDistribution list \<Rightarrow> real" where
  "total_percentage distributions = foldl (\<lambda>s d. s + percentage d) 0 distributions"

definition validateProfitDistribution :: "ProfitDistribution list \<Rightarrow> ValidationResult" where
  "validateProfitDistribution distributions =
     (let total = total_percentage distributions in
      if \<bar>total - 100\<bar> > 0.01 then invalid (Must_sum_to_100 total) else valid)"

text \<open>
  The loop of \<open>distributeProfit\<close>, on the entries not yet visited. \<open>result\<close> is the
  object under construction: an assignment \<open>result[fundId] = v\<close> replaces the value of a
  key already present and adds a new key at the end.
\<close>

fun distribute_loop ::
  "real \<Rightarrow> ProfitDistribution list \<Rightarrow> (FundId \<times> real) list \<Rightarrow> real \<Rightarrow> (FundId \<times> real) list"
where
  "distribute_loop p [] result remaining = result"
| "distribute_loop p [d] result remaining =
     AList.update (fundId d) (Math_round (remaining * 100) / 100) result"
| "distribute_loop p (d # d' # ds) result remaining =
     (let amt = Math_round ((p * percentage d / 100) * 100) / 100
      in distribute_loop p (d' # ds) (AList.update (fundId d) amt result) (remaining - amt))"

definition distributeProfit ::
  "real \<Rightarrow> ProfitDistribution list \<Rightarrow> (FundId \<times> real) list outcome"
where
  "distributeProfit p distributions =
     (let validation = validateProfitDistribution distributions in
      if \<not> isValid validation
      then Throws (Error (case error validation of
                            Some m \<Rightarrow> m
                          | None \<Rightarrow> Literal ''Invalid profit distribution''))
      else Returns (distribute_loop p distributions [] p))"

definition validateTransaction ::
  "'a TransactionData_scheme \<Rightarrow> (FundId \<rightharpoonup> Fund) \<Rightarrow> Date \<Rightarrow> ValidationResult outcome"
where
  "validateTransaction t fs now =
     (if amount t \<le> 0 then Returns (invalid (Literal ''Amount must be positive''))
      else if date_t t > now
      then Returns (invalid (Literal ''Transaction date cannot be in the future''))
      else (case type_t t of
        INCOME \<Rightarrow>
          (case costOfProduction t of
             None \<Rightarrow> Returns (invalid (Literal ''Cost of production is required for income''))
           | Some c \<Rightarrow>
               if c < 0
               then Returns (invalid (Literal ''Cost of production cannot be negative''))
               else if c > amount t
               then Returns (invalid (Literal ''Cost of production cannot exceed income''))
               else bind_outcome (calculateProfit (amount t) c)
                 (\<lambda>pr. if pr < 0
                       then Returns (invalid (Literal ''Profit must be non-negative''))
                       else Returns valid))
      | EXPENSE \<Rightarrow>
          (case sourceFundId t of
             None \<Rightarrow> Returns (invalid (Literal ''Source fund is required for expenses''))
           | Some sid \<Rightarrow>
               if sid = []
               then Returns (invalid (Literal ''Source fund is required for expenses''))
               else (case fs sid of
                  None \<Rightarrow> Returns (invalid (Literal ''Selected fund does not exist''))
                | Some sourceFund \<Rightarrow>
                    if currentBalance sourceFund < amount t
                    then Returns (invalid (Literal ''Insufficient funds in selected account''))
                    else Returns valid))))"

text \<open>
  The body of the \<open>forEach\<close> over \<open>Object.entries(distributionsMap)\<close>: an entry whose
  fund is not in the collection changes nothing.
\<close>

definition credit :: "Date \<Rightarrow> FundId \<times> real \<Rightarrow> (FundId \<rightharpoonup> Fund) \<Rightarrow> (FundId \<rightharpoonup> Fund)" where
  "credit now e updatedFunds =
     (case updatedFunds (fst e) of
        None \<Rightarrow> updatedFunds
      | Some f \<Rightarrow> updatedFunds(fst e \<mapsto>
          f\<lparr>currentBalance := currentBalance f + snd e,
            lifetimeInflow := lifetimeInflow f + snd e,
            updatedAt := now\<rparr>))"

definition applyTransactionToFunds ::
  "(FundId \<rightharpoonup> Fund) \<Rightarrow> 'a TransactionData_scheme \<Rightarrow> ProfitDistribution list \<Rightarrow> Date
     \<Rightarrow> (FundId \<rightharpoonup> Fund) outcome"
where
  "applyTransactionToFunds fs t distributions now =
     (case type_t t of
        INCOME \<Rightarrow>
          bind_outcome (calculateProfit_opt (amount t) (costOfProduction t))
            (\<lambda>pr. bind_outcome (distributeProfit pr distributions)
              (\<lambda>distributionsMap. Returns (fold (credit now) distributionsMap fs)))
      | EXPENSE \<Rightarrow>
          (case sourceFundId t of
             None \<Rightarrow> Returns fs
           | Some sid \<Rightarrow>
               if sid = [] then Returns fs
               else (case fs sid of
                  None \<Rightarrow> Returns fs
                | Some fund \<Rightarrow> Returns (fs(sid \<mapsto>
                    fund\<lparr>currentBalance := currentBalance fund - amount t,
                         lifetimeOutflow := lifetimeOutflow fund + amount t,
                         updatedAt := now\<rparr>)))))"

section \<open>The store (lib/store/financeStore)\<close>

text \<open>
  An action of the store runs on the current state and either completes with the next
  state, or throws, leaving the state it had reached, or stores a number that is not
  finite. The budgets of the store, the budget actions and \<open>updateFund\<close>, which
  overwrites any field of a fund with what its caller passes, are not part of the ledger
  engine and are left out. The default funds take their timestamps from the clock when
  the module is loaded: the parameter \<open>t0\<close>.
\<close>

datatype action_result =
  Completed FinancialState | Aborted error FinancialState | NonFiniteState

definition DEFAULT_FUNDS :: "Date \<Rightarrow> (FundId \<rightharpoonup> Fund)" where
  "DEFAULT_FUNDS t0 =
     [''business-savings'' \<mapsto>
        \<lparr>name = ''Business Savings'', description = ''Operational buffer'',
         color = Some ''#3B82F6'', isTaxFund = None, fund_id = ''business-savings'',
         currentBalance = 0, lifetimeInflow = 0, lifetimeOutflow = 0,
         createdAt = t0, updatedAt = t0\<rparr>,
      ''reinvestment'' \<mapsto>
        \<lparr>name = ''Reinvestment / Growth'', description = ''Business expansion'',
         color = Some ''#10B981'', isTaxFund = None, fund_id = ''reinvestment'',
         currentBalance = 0, lifetimeInflow = 0, lifetimeOutflow = 0,
         createdAt = t0, updatedAt = t0\<rparr>,
      ''personal'' \<mapsto>
        \<lparr>name = ''Personal'', description = ''Owner's salary'',
         color = Some ''#8B5CF6'', isTaxFund = None, fund_id = ''personal'',
         currentBalance = 0, lifetimeInflow = 0, lifetimeOutflow = 0,
         createdAt = t0, updatedAt = t0\<rparr>,
      ''emergency'' \<mapsto>
        \<lparr>name = ''Emergency Fund'', description = ''Unexpected needs'',
         color = Some ''#EF4444'', isTaxFund = None, fund_id = ''emergency'',
         currentBalance = 0, lifetimeInflow = 0, lifetimeOutflow = 0,
         createdAt = t0, updatedAt = t0\<rparr>,
      ''baby'' \<mapsto>
        \<lparr>name = ''Baby Fund'', description = ''Child-related expenses'',
         color = Some ''#F59E0B'', isTaxFund = None, fund_id = ''baby'',
         currentBalance = 0, lifetimeInflow = 0, lifetimeOutflow = 0,
         createdAt = t0, updatedAt = t0\<rparr>,
      ''general-savings'' \<mapsto>
        \<lparr>name = ''General Savings'', description = ''Long-term goals'',
         color = Some ''#6366F1'', isTaxFund = None, fund_id = ''general-savings'',
         currentBalance = 0, lifetimeInflow = 0, lifetimeOutflow = 0,
         createdAt = t0, updatedAt = t0\<rparr>,
      ''misc'' \<mapsto>
        \<lparr>name = ''Misc / Flex'', description = ''Discretionary spending'',
         color = Some ''#EC4899'', isTaxFund = None, fund_id = ''misc'',
         currentBalance = 0, lifetimeInflow = 0, lifetimeOutflow = 0,
         createdAt = t0, updatedAt = t0\<rparr>,
      ''taxes'' \<mapsto>
        \<lparr>name = ''Taxes'', description = ''Tax obligations'',
         color = Some ''#6B7280'', isTaxFund = Some True, fund_id = ''taxes'',
         currentBalance = 0, lifetimeInflow = 0, lifetimeOutflow = 0,
         createdAt = t0, updatedAt = t0\<rparr>]"

definition DEFAULT_DISTRIBUTION :: "ProfitDistribution list" where
  "DEFAULT_DISTRIBUTION =
     [\<lparr>fundId = ''business-savings'', percentage = 20\<rparr>,
      \<lparr>fundId = ''reinvestment'', percentage = 15\<rparr>,
      \<lparr>fundId = ''personal'', percentage = 25\<rparr>,
      \<lparr>fundId = ''emergency'', percentage = 10\<rparr>,
      \<lparr>fundId = ''baby'', percentage = 5\<rparr>,
      \<lparr>fundId = ''general-savings'', percentage = 10\<rparr>,
      \<lparr>fundId = ''misc'', percentage = 10\<rparr>,
      \<lparr>fundId = ''taxes'', percentage = 5\<rparr>]"

text \<open>The initial state of the store, created at time \<open>t0\<close>.\<close>

definition initial_state :: "Date \<Rightarrow> FinancialState" where
  "initial_state t0 =
     \<lparr>funds = DEFAULT_FUNDS t0, transactions = [],
      profitDistribution = DEFAULT_DISTRIBUTION, taxEnabled = False, lastUpdated = t0\<rparr>"

text \<open>
  \<open>addTransaction\<close> reads the clock in \<open>validateTransaction\<close> (\<open>now_v\<close>), for the
  transaction's timestamps (\<open>now\<close>) and in \<open>applyTransactionToFunds\<close> (\<open>now_a\<close>).
\<close>

definition addTransaction ::
  "TransactionData \<Rightarrow> Date \<Rightarrow> Date \<Rightarrow> Date \<Rightarrow> string \<Rightarrow> FinancialState \<Rightarrow> action_result"
where
  "addTransaction transactionData now_v now now_a uuid s =
     (case validateTransaction transactionData (funds s) now_v of
        Throws e \<Rightarrow> Aborted e s
      | NonFinite \<Rightarrow> NonFiniteState
      | Returns validation \<Rightarrow>
          if \<not> isValid validation
          then Aborted (Error (case error validation of Some m \<Rightarrow> m | None \<Rightarrow> Literal [])) s
          else
            (case (if type_t transactionData = INCOME
                   then bind_outcome
                          (calculateProfit_opt (amount transactionData)
                             (costOfProduction transactionData))
                          (\<lambda>pr. Returns (Some pr))
                   else Returns None) of
               Throws e \<Rightarrow> Aborted e s
             | NonFinite \<Rightarrow> NonFiniteState
             | Returns pr \<Rightarrow>
                 (let transaction =
                        \<lparr>type_t = type_t transactionData, amount = amount transactionData,
                         date_t = date_t transactionData,
                         description_t = description_t transactionData,
                         costOfProduction = costOfProduction transactionData,
                         profit_t = pr, sourceFundId = sourceFundId transactionData,
                         id_t = uuid, createdAt_t = now, updatedAt_t = now\<rparr>
                  in case applyTransactionToFunds (funds s) transaction
                            (profitDistribution s) now_a of
                       Throws e \<Rightarrow> Aborted e s
                     | NonFinite \<Rightarrow> NonFiniteState
                     | Returns updatedFunds \<Rightarrow>
                         Completed (s\<lparr>funds := updatedFunds,
                                     transactions := transactions s @ [transaction],
                                     lastUpdated := now\<rparr>))))"

text \<open>
  The quotient \<open>d.percentage / totalWithoutTaxes\<close> is the one division of the engine by a
  value that can be zero. Its result is finite, or \<open>NaN\<close> for \<open>0 / 0\<close>, or an infinity with
  the sign of the dividend (the divisor, a sum that starts at \<open>0\<close>, is never the negative
  zero).
\<close>

definition js_div :: "real \<Rightarrow> real \<Rightarrow> jsnum" where
  "js_div a b =
     (if b \<noteq> 0 then Finite (a / b)
      else if a = 0 then NaN
      else if a > 0 then PosInfinity else NegInfinity)"

fun js_times :: "jsnum \<Rightarrow> real \<Rightarrow> jsnum" where
  "js_times (Finite a) c = Finite (a * c)"
| "js_times NaN c = NaN"
| "js_times PosInfinity c = (if c > 0 then PosInfinity else if c < 0 then NegInfinity else NaN)"
| "js_times NegInfinity c = (if c > 0 then NegInfinity else if c < 0 then PosInfinity else NaN)"

text \<open>
  \<open>currentDistribution.map(d => ({...d, percentage: (d.percentage / totalWithoutTaxes) * k}))\<close>
\<close>

definition scale_distribution ::
  "ProfitDistribution list \<Rightarrow> real \<Rightarrow> real \<Rightarrow> (FundId \<times> jsnum) list"
where
  "scale_distribution currentDistribution totalWithoutTaxes k =
     map (\<lambda>d. (fundId d, js_times (js_div (percentage d) totalWithoutTaxes) k))
       currentDistribution"

text \<open>The scaled entries as a distribution of the state, when each percentage is finite.\<close>

fun finite_entries :: "(FundId \<times> jsnum) list \<Rightarrow> ProfitDistribution list option" where
  "finite_entries [] = Some []"
| "finite_entries ((f, Finite r) # es) =
     map_option ((#) \<lparr>fundId = f, percentage = r\<rparr>) (finite_entries es)"
| "finite_entries ((f, NaN) # es) = None"
| "finite_entries ((f, PosInfinity) # es) = None"
| "finite_entries ((f, NegInfinity) # es) = None"

definition toggleTaxFund :: "bool \<Rightarrow> Date \<Rightarrow> FinancialState \<Rightarrow> action_result" where
  "toggleTaxFund enabled now s =
     (if enabled then
        (let currentDistribution = profitDistribution s;
             totalWithoutTaxes = total_percentage currentDistribution;
             scaledDistribution = scale_distribution currentDistribution totalWithoutTaxes 95
         in case finite_entries scaledDistribution of
              None \<Rightarrow> NonFiniteState
            | Some scaled \<Rightarrow>
                Completed (s\<lparr>taxEnabled := True,
                            profitDistribution :=
                              scaled @ [\<lparr>fundId = ''taxes'', percentage = 5\<rparr>],
                            lastUpdated := now\<rparr>))
      else
        (let currentDistribution = filter (\<lambda>d. fundId d \<noteq> ''taxes'') (profitDistribution s);
             totalWithoutTaxes = total_percentage currentDistribution;
             scaledDistribution = scale_distribution currentDistribution totalWithoutTaxes 100
         in case finite_entries scaledDistribution of
              None \<Rightarrow> NonFiniteState
            | Some scaled \<Rightarrow>
                Completed (s\<lparr>taxEnabled := False,
                            profitDistribution := scaled,
                            lastUpdated := now\<rparr>)))"


section \<open>Double precision numbers\<close>

text \<open>
  The second reading of the engine, with the suffix \<open>_js\<close>. A number is a \<open>jsnum\<close>
  whose finite values are the reals that a binary64 denotes; every arithmetic operation
  rounds its exact result to the nearest such value, a tie going to the even significand,
  and overflows to an infinity. The two zeros are identified: the only divisor of the
  engine that can be zero is a sum that starts at \<open>0\<close>, which is never the negative zero,
  and no other operation of the engine tells them apart.
\<close>

definition pow2 :: "int \<Rightarrow> real" where
  "pow2 e = (if 0 \<le> e then 2 ^ nat e else 1 / 2 ^ nat (- e))"

text \<open>
  The binary exponent of a positive real, from 0 upwards (to 1024, where every value
  overflows) or downwards (to -1022, the exponent of the subnormal numbers).
\<close>

function exponent_up :: "real \<Rightarrow> int \<Rightarrow> int" where
  "exponent_up x e = (if x < 2 \<or> 1024 \<le> e then e else exponent_up (x / 2) (e + 1))"
  by pat_completeness auto
termination
  by (relation "measure (\<lambda>(x, e). nat (1024 - e))") auto

function exponent_down :: "real \<Rightarrow> int \<Rightarrow> int" where
  "exponent_down x e = (if 1 \<le> x \<or> e \<le> - 1022 then e else exponent_down (x * 2) (e - 1))"
  by pat_completeness auto
termination
  by (relation "measure (\<lambda>(x, e). nat (e + 1022))") auto

definition exponent :: "real \<Rightarrow> int" where
  "exponent x = (if 1 \<le> x then exponent_up x 0 else exponent_down x 0)"

definition round_even :: "real \<Rightarrow> int" where
  "round_even m =
     (let f = \<lfloor>m\<rfloor>; r = m - of_int f
      in if r < 1 / 2 then f else if 1 / 2 < r then f + 1 else if even f then f else f + 1)"

text \<open>
  The binary64 nearest to a real: the value of a numeric literal, of \<open>parseFloat\<close> on a
  decimal string, and of the exact result of an operation. The significand has 53 bits.
\<close>

definition double :: "real \<Rightarrow> jsnum" where
  "double x =
     (if x = 0 then Finite 0
      else let u = pow2 (exponent \<bar>x\<bar> - 52); y = of_int (round_even (x / u)) * u
           in if pow2 1024 \<le> \<bar>y\<bar> then (if 0 < x then PosInfinity else NegInfinity)
              else Finite y)"

fun jneg :: "jsnum \<Rightarrow> jsnum" where
  "jneg (Finite a) = Finite (- a)"
| "jneg NaN = NaN"
| "jneg PosInfinity = NegInfinity"
| "jneg NegInfinity = PosInfinity"

fun jadd :: "jsnum \<Rightarrow> jsnum \<Rightarrow> jsnum" where
  "jadd (Finite a) (Finite b) = double (a + b)"
| "jadd NaN b = NaN"
| "jadd a NaN = NaN"
| "jadd PosInfinity NegInfinity = NaN"
| "jadd NegInfinity PosInfinity = NaN"
| "jadd PosInfinity b = PosInfinity"
| "jadd NegInfinity b = NegInfinity"
| "jadd a PosInfinity = PosInfinity"
| "jadd a NegInfinity = NegInfinity"

definition jsub :: "jsnum \<Rightarrow> jsnum \<Rightarrow> jsnum" where
  "jsub a b = jadd a (jneg b)"

text \<open>An infinity times a number.\<close>

fun times_infinity :: "jsnum \<Rightarrow> jsnum" where
  "times_infinity (Finite b) =
     (if b = 0 then NaN else if 0 < b then PosInfinity else NegInfinity)"
| "times_infinity NaN = NaN"
| "times_infinity PosInfinity = PosInfinity"
| "times_infinity NegInfinity = NegInfinity"

fun jmul :: "jsnum \<Rightarrow> jsnum \<Rightarrow> jsnum" where
  "jmul (Finite a) (Finite b) = double (a * b)"
| "jmul NaN b = NaN"
| "jmul a NaN = NaN"
| "jmul PosInfinity b = times_infinity b"
| "jmul NegInfinity b = jneg (times_infinity b)"
| "jmul a PosInfinity = times_infinity a"
| "jmul a NegInfinity = jneg (times_infinity a)"

fun jdiv :: "jsnum \<Rightarrow> jsnum \<Rightarrow> jsnum" where
  "jdiv (Finite a) (Finite b) =
     (if b = 0 then (if a = 0 then NaN else if 0 < a then PosInfinity else NegInfinity)
      else double (a / b))"
| "jdiv NaN b = NaN"
| "jdiv a NaN = NaN"
| "jdiv (Finite a) PosInfinity = Finite 0"
| "jdiv (Finite a) NegInfinity = Finite 0"
| "jdiv PosInfinity (Finite b) = (if 0 \<le> b then PosInfinity else NegInfinity)"
| "jdiv NegInfinity (Finite b) = (if 0 \<le> b then NegInfinity else PosInfinity)"
| "jdiv a b = NaN"

fun jlt :: "jsnum \<Rightarrow> jsnum \<Rightarrow> bool" where
  "jlt (Finite a) (Finite b) = (a < b)"
| "jlt NaN b = False"
| "jlt a NaN = False"
| "jlt a NegInfinity = False"
| "jlt NegInfinity b = True"
| "jlt PosInfinity b = False"
| "jlt a PosInfinity = True"

definition jgt :: "jsnum \<Rightarrow> jsnum \<Rightarrow> bool" where
  "jgt a b = jlt b a"

text \<open>\<open>a <= b\<close>: false when an operand is \<open>NaN\<close>, otherwise \<open>!(b < a)\<close>.\<close>

definition jle :: "jsnum \<Rightarrow> jsnum \<Rightarrow> bool" where
  "jle a b = (a \<noteq> NaN \<and> b \<noteq> NaN \<and> \<not> jlt b a)"

fun jabs :: "jsnum \<Rightarrow> jsnum" where
  "jabs (Finite a) = Finite \<bar>a\<bar>"
| "jabs NaN = NaN"
| "jabs PosInfinity = PosInfinity"
| "jabs NegInfinity = PosInfinity"

fun jround :: "jsnum \<Rightarrow> jsnum" where
  "jround (Finite a) = Finite (Math_round a)"
| "jround NaN = NaN"
| "jround PosInfinity = PosInfinity"
| "jround NegInfinity = NegInfinity"

text \<open>\<open>a === b\<close> on numbers: \<open>NaN\<close> equals nothing.\<close>

fun strict_equal :: "jsnum \<Rightarrow> jsnum \<Rightarrow> bool" where
  "strict_equal (Finite a) (Finite b) = (a = b)"
| "strict_equal PosInfinity PosInfinity = True"
| "strict_equal NegInfinity NegInfinity = True"
| "strict_equal a b = False"

text \<open>A property that may be missing, read as a number: \<open>undefined\<close> is \<open>NaN\<close>.\<close>

definition to_number :: "jsnum option \<Rightarrow> jsnum" where
  "to_number v = (case v of None \<Rightarrow> NaN | Some n \<Rightarrow> n)"

section \<open>Objects of the fund collection\<close>

text \<open>
  The fund collection is a plain object. Reading \<open>funds[k]\<close> for a \<open>k\<close> that is not one
  of its keys finds the property of that name inherited from \<open>Object.prototype\<close>, if
  there is one: a function (or, for \<open>__proto__\<close>, the prototype itself), which is truthy,
  has none of the properties of a fund and spreads to the empty object. An object stored
  in the collection can therefore lack any property of a fund; the properties that no
  operation of the engine writes are kept together in \<open>rest_js\<close>.
\<close>

definition Object_prototype_names :: "string list" where
  "Object_prototype_names =
     [''constructor'', ''__defineGetter__'', ''__defineSetter__'', ''hasOwnProperty'',
      ''__lookupGetter__'', ''__lookupSetter__'', ''isPrototypeOf'',
      ''propertyIsEnumerable'', ''toString'', ''valueOf'', ''__proto__'',
      ''toLocaleString'']"

record FundRest = FundData +
  fund_id_js :: FundId
  createdAt_js :: Date

record Fund_js =
  rest_js :: "FundRest option"
  currentBalance_js :: "jsnum option"
  lifetimeInflow_js :: "jsnum option"
  lifetimeOutflow_js :: "jsnum option"
  updatedAt_js :: "Date option"

definition no_properties :: Fund_js where
  "no_properties =
     \<lparr>rest_js = None, currentBalance_js = None, lifetimeInflow_js = None,
      lifetimeOutflow_js = None, updatedAt_js = None\<rparr>"

text \<open>\<open>funds[k]\<close>: \<open>None\<close> is \<open>undefined\<close>, every other value is truthy.\<close>

definition get_js :: "(FundId \<rightharpoonup> Fund_js) \<Rightarrow> FundId \<Rightarrow> Fund_js option" where
  "get_js fs k =
     (case fs k of
        Some f \<Rightarrow> Some f
      | None \<Rightarrow> if k \<in> set Object_prototype_names then Some no_properties else None)"

record TransactionData_js =
  type_js :: TransactionType
  amount_js :: jsnum
  date_js :: jsnum
  description_js :: string
  costOfProduction_js :: "jsnum option"
  profit_js :: "jsnum option"
  sourceFundId_js :: "FundId option"

record Transaction_js = TransactionData_js +
  id_js :: string
  createdAt_tjs :: Date
  updatedAt_tjs :: Date

record ProfitDistribution_js =
  fundId_js :: FundId
  percentage_js :: jsnum

record FinancialState_js =
  funds_js :: "FundId \<rightharpoonup> Fund_js"
  transactions_js :: "Transaction_js list"
  profitDistribution_js :: "ProfitDistribution_js list"
  taxEnabled_js :: bool
  lastUpdated_js :: Date

text \<open>
  A call returns a value or throws. An assignment of an object to the key \<open>__proto__\<close>
  makes that object the prototype of the collection instead of storing it under a key;
  a call that does so ends in \<open>PrototypeReplaced\<close> and is not followed further.
\<close>

datatype 'a completion = Value 'a | Exception error | PrototypeReplaced

fun bind_js :: "'a completion \<Rightarrow> ('a \<Rightarrow> 'b completion) \<Rightarrow> 'b completion" where
  "bind_js (Value x) f = f x"
| "bind_js (Exception e) f = Exception e"
| "bind_js PrototypeReplaced f = PrototypeReplaced"

section \<open>Pure calculations in double precision\<close>

text \<open>
  \<open>calculateProfit(income, costOfProduction!)\<close>: the cost may be \<open>undefined\<close>, which the
  comparisons and the subtraction read as \<open>NaN\<close>.
\<close>

definition calculateProfit_js :: "jsnum \<Rightarrow> jsnum option \<Rightarrow> jsnum completion" where
  "calculateProfit_js income cost =
     (if jlt income (Finite 0)
      then Exception (Error (Literal ''Income cannot be negative''))
      else if jlt (to_number cost) (Finite 0)
      then Exception (Error (Literal ''Cost of production cannot be negative''))
      else if jgt (to_number cost) income
      then Exception (Error (Literal ''Cost of production cannot exceed income''))
      else Value (jsub income (to_number cost)))"

definition total_js :: "ProfitDistribution_js list \<Rightarrow> jsnum" where
  "total_js distributions = foldl (\<lambda>s d. jadd s (percentage_js d)) (Finite 0) distributions"

definition validateProfitDistribution_js :: "ProfitDistribution_js list \<Rightarrow> ValidationResult" where
  "validateProfitDistribution_js distributions =
     (let total = total_js distributions in
      if jgt (jabs (jsub total (Finite 100))) (double 0.01)
      then invalid (Must_sum_to_100_js total) else valid)"

text \<open>
  \<open>result[fundId] = v\<close> on the plain object \<open>result\<close>: for the key \<open>__proto__\<close> the
  assignment of a number is ignored and no key is added.
\<close>

definition assign_js :: "FundId \<Rightarrow> jsnum \<Rightarrow> (FundId \<times> jsnum) list \<Rightarrow> (FundId \<times> jsnum) list" where
  "assign_js k v result = (if k = ''__proto__'' then result else AList.update k v result)"

fun distribute_loop_js ::
  "jsnum \<Rightarrow> ProfitDistribution_js list \<Rightarrow> (FundId \<times> jsnum) list \<Rightarrow> jsnum
     \<Rightarrow> (FundId \<times> jsnum) list"
where
  "distribute_loop_js p [] result remaining = result"
| "distribute_loop_js p [d] result remaining =
     assign_js (fundId_js d) (jdiv (jround (jmul remaining (Finite 100))) (Finite 100)) result"
| "distribute_loop_js p (d # d' # ds) result remaining =
     (let amt = jdiv (jround (jmul (jdiv (jmul p (percentage_js d)) (Finite 100)) (Finite 100)))
                  (Finite 100)
      in distribute_loop_js p (d' # ds) (assign_js (fundId_js d) amt result) (jsub remaining amt))"

definition distributeProfit_js ::
  "jsnum \<Rightarrow> ProfitDistribution_js list \<Rightarrow> (FundId \<times> jsnum) list completion"
where
  "distributeProfit_js p distributions =
     (let validation = validateProfitDistribution_js distributions in
      if \<not> isValid validation
      then Exception (Error (case error validation of
                               Some m \<Rightarrow> m
                             | None \<Rightarrow> Literal ''Invalid profit distribution''))
      else Value (distribute_loop_js p distributions [] p))"

definition validateTransaction_js ::
  "'a TransactionData_js_scheme \<Rightarrow> (FundId \<rightharpoonup> Fund_js) \<Rightarrow> Date
     \<Rightarrow> ValidationResult completion"
where
  "validateTransaction_js t fs now =
     (if jle (amount_js t) (Finite 0)
      then Value (invalid (Literal ''Amount must be positive''))
      else if jgt (date_js t) (Finite (of_int now))
      then Value (invalid (Literal ''Transaction date cannot be in the future''))
      else (case type_js t of
        INCOME \<Rightarrow>
          (case costOfProduction_js t of
             None \<Rightarrow> Value (invalid (Literal ''Cost of production is required for income''))
           | Some c \<Rightarrow>
               if jlt c (Finite 0)
               then Value (invalid (Literal ''Cost of production cannot be negative''))
               else if jgt c (amount_js t)
               then Value (invalid (Literal ''Cost of production cannot exceed income''))
               else bind_js (calculateProfit_js (amount_js t) (Some c))
                 (\<lambda>pr. if jlt pr (Finite 0)
                       then Value (invalid (Literal ''Profit must be non-negative''))
                       else Value valid))
      | EXPENSE \<Rightarrow>
          (case sourceFundId_js t of
             None \<Rightarrow> Value (invalid (Literal ''Source fund is required for expenses''))
           | Some sid \<Rightarrow>
               if sid = []
               then Value (invalid (Literal ''Source fund is required for expenses''))
               else (case get_js fs sid of
                  None \<Rightarrow> Value (invalid (Literal ''Selected fund does not exist''))
                | Some sourceFund \<Rightarrow>
                    if jlt (to_number (currentBalance_js sourceFund)) (amount_js t)
                    then Value (invalid (Literal ''Insufficient funds in selected account''))
                    else Value valid))))"

text \<open>
  The body of the \<open>forEach\<close> over the entries of the map that \<open>distributeProfit\<close>
  returned; \<open>__proto__\<close> is never a key of that map. \<open>Object.entries\<close> lists keys that
  are array indices before the others; the keys of the map are distinct and each step
  writes only the entry of its own key, so the order of the steps does not change the
  result.
\<close>

definition credit_js ::
  "Date \<Rightarrow> FundId \<times> jsnum \<Rightarrow> (FundId \<rightharpoonup> Fund_js) \<Rightarrow> (FundId \<rightharpoonup> Fund_js)"
where
  "credit_js now e updatedFunds =
     (case get_js updatedFunds (fst e) of
        None \<Rightarrow> updatedFunds
      | Some f \<Rightarrow> updatedFunds(fst e \<mapsto>
          f\<lparr>currentBalance_js := Some (jadd (to_number (currentBalance_js f)) (snd e)),
            lifetimeInflow_js := Some (jadd (to_number (lifetimeInflow_js f)) (snd e)),
            updatedAt_js := Some now\<rparr>))"

definition applyTransactionToFunds_js ::
  "(FundId \<rightharpoonup> Fund_js) \<Rightarrow> 'a TransactionData_js_scheme \<Rightarrow> ProfitDistribution_js list
     \<Rightarrow> Date \<Rightarrow> (FundId \<rightharpoonup> Fund_js) completion"
where
  "applyTransactionToFunds_js fs t distributions now =
     (case type_js t of
        INCOME \<Rightarrow>
          bind_js (calculateProfit_js (amount_js t) (costOfProduction_js t))
            (\<lambda>pr. bind_js (distributeProfit_js pr distributions)
              (\<lambda>distributionsMap. Value (fold (credit_js now) distributionsMap fs)))
      | EXPENSE \<Rightarrow>
          (case sourceFundId_js t of
             None \<Rightarrow> Value fs
           | Some sid \<Rightarrow>
               if sid = [] then Value fs
               else (case get_js fs sid of
                  None \<Rightarrow> Value fs
                | Some fund \<Rightarrow>
                    if sid = ''__proto__'' then PrototypeReplaced
                    else Value (fs(sid \<mapsto>
                      fund\<lparr>currentBalance_js :=
                             Some (jsub (to_number (currentBalance_js fund)) (amount_js t)),
                           lifetimeOutflow_js :=
                             Some (jadd (to_number (lifetimeOutflow_js fund)) (amount_js t)),
                           updatedAt_js := Some now\<rparr>)))))"

section \<open>The store in double precision\<close>

datatype run = Done FinancialState_js | Thrown error FinancialState_js | ReplacedPrototype

text \<open>The default funds and the default distribution, their numbers read as doubles.\<close>

definition fund_js :: "Fund \<Rightarrow> Fund_js" where
  "fund_js f =
     \<lparr>rest_js = Some \<lparr>name = name f, description = description f, color = color f,
                      isTaxFund = isTaxFund f, fund_id_js = fund_id f,
                      createdAt_js = createdAt f\<rparr>,
      currentBalance_js = Some (double (currentBalance f)),
      lifetimeInflow_js = Some (double (lifetimeInflow f)),
      lifetimeOutflow_js = Some (double (lifetimeOutflow f)),
      updatedAt_js = Some (updatedAt f)\<rparr>"

definition distribution_js :: "ProfitDistribution list \<Rightarrow> ProfitDistribution_js list" where
  "distribution_js ds =
     map (\<lambda>d. \<lparr>fundId_js = fundId d, percentage_js = double (percentage d)\<rparr>) ds"

definition initial_state_js :: "Date \<Rightarrow> FinancialState_js" where
  "initial_state_js t0 =
     \<lparr>funds_js = (\<lambda>k. map_option fund_js (DEFAULT_FUNDS t0 k)), transactions_js = [],
      profitDistribution_js = distribution_js DEFAULT_DISTRIBUTION, taxEnabled_js = False,
      lastUpdated_js = t0\<rparr>"

definition addTransaction_js ::
  "TransactionData_js \<Rightarrow> Date \<Rightarrow> Date \<Rightarrow> Date \<Rightarrow> string \<Rightarrow> FinancialState_js \<Rightarrow> run"
where
  "addTransaction_js transactionData now_v now now_a uuid s =
     (case validateTransaction_js transactionData (funds_js s) now_v of
        Exception e \<Rightarrow> Thrown e s
      | PrototypeReplaced \<Rightarrow> ReplacedPrototype
      | Value validation \<Rightarrow>
          if \<not> isValid validation
          then Thrown (Error (case error validation of Some m \<Rightarrow> m | None \<Rightarrow> Literal [])) s
          else
            (case (if type_js transactionData = INCOME
                   then bind_js
                          (calculateProfit_js (amount_js transactionData)
                             (costOfProduction_js transactionData))
                          (\<lambda>pr. Value (Some pr))
                   else Value None) of
               Exception e \<Rightarrow> Thrown e s
             | PrototypeReplaced \<Rightarrow> ReplacedPrototype
             | Value pr \<Rightarrow>
                 (let transaction =
                        \<lparr>type_js = type_js transactionData,
                         amount_js = amount_js transactionData,
                         date_js = date_js transactionData,
                         description_js = description_js transactionData,
                         costOfProduction_js = costOfProduction_js transactionData,
                         profit_js = pr, sourceFundId_js = sourceFundId_js transactionData,
                         id_js = uuid, createdAt_tjs = now, updatedAt_tjs = now\<rparr>
                  in case applyTransactionToFunds_js (funds_js s) transaction
                            (profitDistribution_js s) now_a of
                       Exception e \<Rightarrow> Thrown e s
                     | PrototypeReplaced \<Rightarrow> ReplacedPrototype
                     | Value updatedFunds \<Rightarrow>
                         Done (s\<lparr>funds_js := updatedFunds,
                                transactions_js := transactions_js s @ [transaction],
                                lastUpdated_js := now\<rparr>))))"

text \<open>
  \<open>funds[fundId].currentBalance\<close> throws a \<open>TypeError\<close> when \<open>funds[fundId]\<close> is
  \<open>undefined\<close>; the destructuring keeps every key but \<open>fundId\<close>.
\<close>

definition deleteFund_js :: "FundId \<Rightarrow> Date \<Rightarrow> FinancialState_js \<Rightarrow> run" where
  "deleteFund_js fid now s =
     (case get_js (funds_js s) fid of
        None \<Rightarrow> Thrown TypeError s
      | Some f \<Rightarrow>
          if jgt (to_number (currentBalance_js f)) (Finite 0)
          then Thrown (Error (Literal ''Cannot delete fund with remaining balance'')) s
          else if list_ex (\<lambda>t. type_js t = EXPENSE \<and> sourceFundId_js t = Some fid)
                    (transactions_js s)
          then Thrown (Error (Literal ''Cannot delete fund referenced in transactions'')) s
          else Done
                 (s\<lparr>funds_js := (funds_js s)(fid := None),
                    profitDistribution_js :=
                      filter (\<lambda>d. fundId_js d \<noteq> fid) (profitDistribution_js s),
                    lastUpdated_js := now\<rparr>))"

definition toggleTaxFund_js :: "bool \<Rightarrow> Date \<Rightarrow> FinancialState_js \<Rightarrow> run" where
  "toggleTaxFund_js enabled now s =
     (if enabled then
        (let currentDistribution = profitDistribution_js s;
             totalWithoutTaxes = total_js currentDistribution;
             scaledDistribution =
               map (\<lambda>d. d\<lparr>percentage_js :=
                            jmul (jdiv (percentage_js d) totalWithoutTaxes) (Finite 95)\<rparr>)
                 currentDistribution
         in Done (s\<lparr>taxEnabled_js := True,
                     profitDistribution_js :=
                       scaledDistribution @ [\<lparr>fundId_js = ''taxes'', percentage_js = Finite 5\<rparr>],
                     lastUpdated_js := now\<rparr>))
      else
        (let currentDistribution =
               filter (\<lambda>d. fundId_js d \<noteq> ''taxes'') (profitDistribution_js s);
             totalWithoutTaxes = total_js currentDistribution;
             scaledDistribution =
               map (\<lambda>d. d\<lparr>percentage_js :=
                            jmul (jdiv (percentage_js d) totalWithoutTaxes) (Finite 100)\<rparr>)
                 currentDistribution
         in Done (s\<lparr>taxEnabled_js := False,
                     profitDistribution_js := scaledDistribution,
                     lastUpdated_js := now\<rparr>)))"

section \<open>Concrete inputs\<close>

text \<open>The initial state with another active distribution.\<close>

definition state_with :: "ProfitDistribution list \<Rightarrow> FinancialState" where
  "state_with ds = (initial_state 0)\<lparr>profitDistribution := ds\<rparr>"

text \<open>An income of 0.06 without cost, and the state of the store after it.\<close>

definition income_006 :: TransactionData where
  "income_006 = \<lparr>type_t = INCOME, amount = 0.06, date_t = 0, description_t = ''sale'',
      costOfProduction = Some 0, profit_t = None, sourceFundId = None\<rparr>"

definition after_income_006 :: FinancialState where
  "after_income_006 =
     (case addTransaction income_006 0 0 0 ''tx-1'' (initial_state 0) of
        Completed s' \<Rightarrow> s' | Aborted e s' \<Rightarrow> s' | NonFiniteState \<Rightarrow> initial_state 0)"

text \<open>
  The same inputs in the second reading: an income without cost whose amount is the
  double of a decimal, an expense on a fund, and the state in which a call of the store
  leaves it (the unchanged state after a throw).
\<close>

definition income_js :: "real \<Rightarrow> TransactionData_js" where
  "income_js a = \<lparr>type_js = INCOME, amount_js = double a, date_js = Finite 0,
      description_js = ''sale'', costOfProduction_js = Some (Finite 0), profit_js = None,
      sourceFundId_js = None\<rparr>"

definition expense_js :: "jsnum \<Rightarrow> FundId \<Rightarrow> TransactionData_js" where
  "expense_js a sid = \<lparr>type_js = EXPENSE, amount_js = a, date_js = Finite 0,
      description_js = ''rent'', costOfProduction_js = None, profit_js = None,
      sourceFundId_js = Some sid\<rparr>"

definition state_of :: "run \<Rightarrow> FinancialState_js \<Rightarrow> FinancialState_js" where
  "state_of r s = (case r of Done s' \<Rightarrow> s' | Thrown e s' \<Rightarrow> s' | ReplacedPrototype \<Rightarrow> s)"

text \<open>
  An income of 0.4 on the initial state, then an expense of 0.03 and an expense of 0.01
  on the fund \<open>misc\<close>.
\<close>

definition after_income_04_js :: FinancialState_js where
  "after_income_04_js =
     state_of (addTransaction_js (income_js 0.4) 0 0 0 ''tx-1'' (initial_state_js 0))
       (initial_state_js 0)"

definition after_expense_003_js :: FinancialState_js where
  "after_expense_003_js =
     state_of (addTransaction_js (expense_js (double 0.03) ''misc'') 0 0 0 ''tx-2''
                 after_income_04_js) after_income_04_js"

definition after_expense_001_js :: FinancialState_js where
  "after_expense_001_js =
     state_of (addTransaction_js (expense_js (double 0.01) ''misc'') 0 0 0 ''tx-3''
                 after_expense_003_js) after_expense_003_js"

text \<open>
  An expense whose amount is \<open>NaN\<close> (\<open>parseFloat('.')\<close> in the transaction form, whose
  pattern admits the string), an income of 0.06, and the tax toggle switched on, each on
  the initial state.
\<close>

definition after_expense_nan_js :: FinancialState_js where
  "after_expense_nan_js =
     state_of (addTransaction_js (expense_js NaN ''misc'') 0 0 0 ''tx-1'' (initial_state_js 0))
       (initial_state_js 0)"

definition after_income_006_js :: FinancialState_js where
  "after_income_006_js =
     state_of (addTransaction_js (income_js 0.06) 0 0 0 ''tx-1'' (initial_state_js 0))
       (initial_state_js 0)"

definition toggled_js :: FinancialState_js where
  "toggled_js = state_of (toggleTaxFund_js True 1 (initial_state_js 0)) (initial_state_js 0)"

text \<open>
  An expense of 50 on a fund that holds 30.
\<close>

definition expense_50_js :: TransactionData_js where
  "expense_50_js = \<lparr>type_js = EXPENSE, amount_js = Finite 50, date_js = Finite 0,
      description_js = ''rent'', costOfProduction_js = None, profit_js = None,
      sourceFundId_js = Some ''misc''\<rparr>"

definition state_30_js :: FinancialState_js where
  "state_30_js =
     \<lparr>funds_js = [''misc'' \<mapsto>
         \<lparr>rest_js = Some \<lparr>name = ''Misc / Flex'', description = ''Discretionary spending'',
                          color = None, isTaxFund = None, fund_id_js = ''misc'',
                          createdAt_js = 0\<rparr>,
          currentBalance_js = Some (Finite 30), lifetimeInflow_js = Some (Finite 30),
          lifetimeOutflow_js = Some (Finite 0), updatedAt_js = Some 0\<rparr>],
      transactions_js = [], profitDistribution_js = distribution_js DEFAULT_DISTRIBUTION,
      taxEnabled_js = False, lastUpdated_js = 0\<rparr>"

section \<open>A negative remainder\<close>

lemma distributeProfit_cases:
  "distributeProfit p ds =
     (if \<bar>total_percentage ds - 100\<bar> > 0.01
      then Throws (Error (Must_sum_to_100 (total_percentage ds)))
      else Returns (distribute_loop p ds [] p))"
  by (simp add: distributeProfit_def validateProfitDistribution_def Let_def valid_def invalid_def)

lemma addTransaction_income:
  assumes "validateTransaction d (funds s) now_v = Returns v" and "isValid v"
    and "type_t d = INCOME" and "costOfProduction d = Some c"
    and "calculateProfit (amount d) c = Returns pr"
    and "distributeProfit pr (profitDistribution s) = Returns m"
  shows "addTransaction d now_v now now_a uuid s =
     Completed (s\<lparr>funds := fold (credit now_a) m (funds s),
       transactions := transactions s @
         [\<lparr>type_t = INCOME, amount = amount d, date_t = date_t d,
           description_t = description_t d, costOfProduction = Some c,
           profit_t = Some pr, sourceFundId = sourceFundId d,
           id_t = uuid, createdAt_t = now, updatedAt_t = now\<rparr>],
       lastUpdated := now\<rparr>)"
  using assms
  by (simp add: addTransaction_def calculateProfit_opt_def applyTransactionToFunds_def)

lemma default_alloc_006:
  "distributeProfit 0.06 DEFAULT_DISTRIBUTION =
     Returns [(''business-savings'', 0.01), (''reinvestment'', 0.01), (''personal'', 0.02),
       (''emergency'', 0.01), (''baby'', 0), (''general-savings'', 0.01), (''misc'', 0.01),
       (''taxes'', - 0.01)]"
  by (simp add: distributeProfit_cases DEFAULT_DISTRIBUTION_def total_percentage_def
      Math_round_def Let_def)

lemma validate_006: "validateTransaction income_006 fs 0 = Returns valid"
  by (simp add: validateTransaction_def income_006_def calculateProfit_def)

lemma income_006_facts:
  "type_t income_006 = INCOME" "costOfProduction income_006 = Some 0"
  "calculateProfit (amount income_006) 0 = Returns 0.06"
  by (simp_all add: income_006_def calculateProfit_def)

lemma add_income_006:
  "addTransaction income_006 0 0 0 ''tx-1'' (initial_state 0) =
     Completed ((initial_state 0)\<lparr>funds := fold (credit 0)
         [(''business-savings'', 0.01), (''reinvestment'', 0.01), (''personal'', 0.02),
          (''emergency'', 0.01), (''baby'', 0), (''general-savings'', 0.01), (''misc'', 0.01),
          (''taxes'', - 0.01)] (funds (initial_state 0)),
       transactions := transactions (initial_state 0) @
         [\<lparr>type_t = INCOME, amount = amount income_006, date_t = date_t income_006,
           description_t = description_t income_006, costOfProduction = Some 0,
           profit_t = Some 0.06, sourceFundId = sourceFundId income_006,
           id_t = ''tx-1'', createdAt_t = 0, updatedAt_t = 0\<rparr>],
       lastUpdated := 0\<rparr>)"
proof -
  have d: "distributeProfit 0.06 (profitDistribution (initial_state 0)) =
     Returns [(''business-savings'', 0.01), (''reinvestment'', 0.01), (''personal'', 0.02),
       (''emergency'', 0.01), (''baby'', 0), (''general-savings'', 0.01), (''misc'', 0.01),
       (''taxes'', - 0.01)]"
  proof -
    have "profitDistribution (initial_state 0) = DEFAULT_DISTRIBUTION"
      by (simp add: initial_state_def)
    then show ?thesis by (simp only: default_alloc_006)
  qed
  have v: "isValid valid" by (simp add: valid_def)
  show ?thesis
    by (rule addTransaction_income [OF validate_006 v income_006_facts d])
qed

lemma add_income_006_Completed:
  "addTransaction income_006 0 0 0 ''tx-1'' (initial_state 0) = Completed after_income_006"
  unfolding after_income_006_def add_income_006 by simp

lemma after_income_006_taxes:
  "funds after_income_006 ''taxes'' =
     Some \<lparr>name = ''Taxes'', description = ''Tax obligations'',
         color = Some ''#6B7280'', isTaxFund = Some True, fund_id = ''taxes'',
         currentBalance = - 0.01, lifetimeInflow = - 0.01, lifetimeOutflow = 0,
         createdAt = 0, updatedAt = 0\<rparr>"
  unfolding after_income_006_def add_income_006
  by (simp add: initial_state_def credit_def DEFAULT_FUNDS_def)

text \<open>
  Claim C9 fails on the initial state: a validated income of 0.06 is allocated as seven
  shares that sum to 0.07, the last entry of the default distribution receives the
  remainder -0.01, and the \<open>lifetimeInflow\<close> of the fund \<open>taxes\<close> goes from 0 to -0.01.
\<close>

theorem income_decrements_lifetimeInflow:
  "validateTransaction income_006 (funds (initial_state 0)) 0 = Returns valid
   \<and> addTransaction income_006 0 0 0 ''tx-1'' (initial_state 0) = Completed after_income_006
   \<and> lifetimeInflow (the (funds (initial_state 0) ''taxes'')) = 0
   \<and> lifetimeInflow (the (funds after_income_006 ''taxes'')) = - 0.01
   \<and> lifetimeInflow (the (funds after_income_006 ''taxes''))
       < lifetimeInflow (the (funds (initial_state 0) ''taxes''))"
proof -
  have a: "lifetimeInflow (the (funds (initial_state 0) ''taxes'')) = 0"
    by (simp add: initial_state_def DEFAULT_FUNDS_def)
  have b: "lifetimeInflow (the (funds after_income_006 ''taxes'')) = - 0.01"
    by (simp add: after_income_006_taxes)
  have c: "lifetimeInflow (the (funds after_income_006 ''taxes''))
       < lifetimeInflow (the (funds (initial_state 0) ''taxes''))"
    unfolding a b by simp
  show ?thesis
    by (intro conjI validate_006 add_income_006_Completed a b c)
qed

section \<open>The tax toggle\<close>



lemma js_times_div_zero: "js_times (js_div a 0) k \<noteq> Finite r"
  by (simp add: js_div_def)

lemma finite_entries_scale_zero:
  "ds \<noteq> [] \<Longrightarrow> finite_entries (scale_distribution ds 0 k) = None"
proof (cases ds)
  case Nil
  then show "ds \<noteq> [] \<Longrightarrow> ?thesis" by simp
next
  case (Cons d ds')
  then show ?thesis
    by (cases "js_times (js_div (percentage d) 0) k")
      (simp_all add: scale_distribution_def js_times_div_zero)
qed

lemma scale_zero_values:
  "0 < k \<Longrightarrow> scale_distribution ds 0 k =
     map (\<lambda>d. (fundId d, if percentage d = 0 then NaN
                          else if 0 < percentage d then PosInfinity else NegInfinity)) ds"
  by (simp add: scale_distribution_def js_div_def)











lemma toggleTaxFund_not_Aborted: "toggleTaxFund enabled now s \<noteq> Aborted e s'"
  by (simp add: toggleTaxFund_def Let_def split: option.splits)

text \<open>
  Claim C7, as the code has it. \<open>toggleTaxFund\<close> has no guard on the sum it divides
  by and never throws. When the entries it rescales sum to zero: if there is no such
  entry, it completes, sets the flag and stores the distribution (the single tax entry
  of 5 when enabling, the empty distribution when disabling); if there is one, each
  rescaled percentage is a quotient by zero, \<open>NaN\<close> for a percentage of zero and an
  infinity otherwise, and the distribution it stores is not finite.
\<close>

theorem tax_toggle_zero_base_unguarded:
  assumes cur: "cur = (if enabled then profitDistribution s
                       else filter (\<lambda>d. fundId d \<noteq> ''taxes'') (profitDistribution s))"
    and zero: "total_percentage cur = 0"
  shows "(\<forall>e s'. toggleTaxFund enabled now s \<noteq> Aborted e s')
    \<and> (cur = [] \<longrightarrow>
         toggleTaxFund enabled now s =
           Completed (s\<lparr>taxEnabled := enabled,
              profitDistribution :=
                (if enabled then [\<lparr>fundId = ''taxes'', percentage = 5\<rparr>] else []),
              lastUpdated := now\<rparr>))
    \<and> (cur \<noteq> [] \<longrightarrow>
         toggleTaxFund enabled now s = NonFiniteState
         \<and> scale_distribution cur 0 (if enabled then 95 else 100) =
             map (\<lambda>d. (fundId d, if percentage d = 0 then NaN
                                  else if 0 < percentage d then PosInfinity else NegInfinity)) cur)"
proof (intro conjI allI impI)
  fix e s'
  show "toggleTaxFund enabled now s \<noteq> Aborted e s'" by (rule toggleTaxFund_not_Aborted)
next
  assume "cur = []"
  then show "toggleTaxFund enabled now s =
           Completed (s\<lparr>taxEnabled := enabled,
              profitDistribution :=
                (if enabled then [\<lparr>fundId = ''taxes'', percentage = 5\<rparr>] else []),
              lastUpdated := now\<rparr>)"
    using cur by (cases enabled) (simp_all add: toggleTaxFund_def Let_def scale_distribution_def)
next
  assume ne: "cur \<noteq> []"
  show "toggleTaxFund enabled now s = NonFiniteState"
  proof (cases enabled)
    case True
    then have "profitDistribution s = cur" using cur by simp
    then show ?thesis
      using True zero finite_entries_scale_zero [OF ne, of 95]
      by (simp add: toggleTaxFund_def Let_def)
  next
    case False
    then have "filter (\<lambda>d. fundId d \<noteq> ''taxes'') (profitDistribution s) = cur" using cur by simp
    then show ?thesis
      using False zero finite_entries_scale_zero [OF ne, of 100]
      by (simp add: toggleTaxFund_def Let_def)
  qed
next
  show "scale_distribution cur 0 (if enabled then 95 else 100) =
             map (\<lambda>d. (fundId d, if percentage d = 0 then NaN
                                  else if 0 < percentage d then PosInfinity else NegInfinity)) cur"
    by (rule scale_zero_values) simp
qed

text \<open>A single entry of zero percent.\<close>

theorem tax_toggle_zero_base_witness:
  "total_percentage [\<lparr>fundId = ''misc'', percentage = 0\<rparr>] = 0
   \<and> toggleTaxFund True 1 (state_with [\<lparr>fundId = ''misc'', percentage = 0\<rparr>]) = NonFiniteState
   \<and> scale_distribution [\<lparr>fundId = ''misc'', percentage = 0\<rparr>] 0 95 = [(''misc'', NaN)]"
proof -
  let ?ds = "[\<lparr>fundId = ''misc'', percentage = 0\<rparr>]"
  have c: "?ds = (if True then profitDistribution (state_with ?ds)
                 else filter (\<lambda>d. fundId d \<noteq> ''taxes'') (profitDistribution (state_with ?ds)))"
    by (simp add: state_with_def)
  have z: "total_percentage ?ds = 0" by (simp add: total_percentage_def)
  have ne: "?ds \<noteq> []" by simp
  note T = tax_toggle_zero_base_unguarded [OF c z, of 1, THEN conjunct2, THEN conjunct2, rule_format, OF ne]
  from T have 1: "toggleTaxFund True 1 (state_with ?ds) = NonFiniteState" by (rule conjunct1)
  from T have 2: "scale_distribution ?ds 0 95 = [(''misc'', NaN)]" by simp
  show ?thesis by (intro conjI z 1 2)
qed

text \<open>
  Enabling the toggle on the empty distribution reports nothing and stores the tax entry;
  on a single entry of zero percent it computes \<open>NaN\<close>.
\<close>

theorem tax_toggle_unguarded_counterexample:
  "total_percentage (profitDistribution (state_with [])) = 0
   \<and> toggleTaxFund True 1 (state_with []) =
       Completed ((state_with [])\<lparr>taxEnabled := True,
          profitDistribution := [\<lparr>fundId = ''taxes'', percentage = 5\<rparr>], lastUpdated := 1\<rparr>)
   \<and> profitDistribution (state_with []) \<noteq> [\<lparr>fundId = ''taxes'', percentage = 5\<rparr>]
   \<and> total_percentage (profitDistribution (state_with [\<lparr>fundId = ''misc'', percentage = 0\<rparr>])) = 0
   \<and> scale_distribution [\<lparr>fundId = ''misc'', percentage = 0\<rparr>] 0 95 = [(''misc'', NaN)]
   \<and> toggleTaxFund True 1 (state_with [\<lparr>fundId = ''misc'', percentage = 0\<rparr>]) = NonFiniteState"
  by (simp add: state_with_def toggleTaxFund_def total_percentage_def scale_distribution_def
      js_div_def Let_def)

section \<open>Evaluation in double precision\<close>

text \<open>
  The exponent search is unfolded only on request: \<open>double_eval\<close> evaluates
  \<open>double\<close> on a numeral.
\<close>

declare exponent_up.simps [simp del] exponent_down.simps [simp del]

lemmas double_eval =
  double_def exponent_def exponent_up.simps exponent_down.simps round_even_def pow2_def Let_def

lemma double_001: "double 0.01 = Finite (5764607523034235 / 576460752303423488)"
  by (simp add: double_eval)

lemma double_003: "double 0.03 = Finite (1080863910568919 / 36028797018963968)"
  by (simp add: double_eval)

lemma double_004: "double 0.04 = Finite (5764607523034235 / 144115188075855872)"
  by (simp add: double_eval)

lemma double_04: "double 0.4 = Finite (3602879701896397 / 9007199254740992)"
  by (simp add: double_eval)

lemma double_04_fix: "double (3602879701896397 / 9007199254740992) = Finite (3602879701896397 / 9007199254740992)"
  by (simp add: double_eval)

lemma double_006: "double 0.06 = Finite (1080863910568919 / 18014398509481984)"
  by (simp add: double_eval)

lemma double_006_fix:
  "double (1080863910568919 / 18014398509481984) = Finite (1080863910568919 / 18014398509481984)"
  by (simp add: double_eval)

lemma double_neg_001: "double (- 0.01) = Finite (- (5764607523034235 / 576460752303423488))"
  by (simp add: double_eval)


lemma distributeProfit_js_cases:
  "distributeProfit_js p ds =
     (if jgt (jabs (jsub (total_js ds) (Finite 100))) (double 0.01)
      then Exception (Error (Must_sum_to_100_js (total_js ds)))
      else Value (distribute_loop_js p ds [] p))"
  by (simp add: distributeProfit_js_def validateProfitDistribution_js_def Let_def valid_def
      invalid_def)

lemma default_distribution_js:
  "distribution_js DEFAULT_DISTRIBUTION =
     [\<lparr>fundId_js = ''business-savings'', percentage_js = Finite 20\<rparr>,
      \<lparr>fundId_js = ''reinvestment'', percentage_js = Finite 15\<rparr>,
      \<lparr>fundId_js = ''personal'', percentage_js = Finite 25\<rparr>,
      \<lparr>fundId_js = ''emergency'', percentage_js = Finite 10\<rparr>,
      \<lparr>fundId_js = ''baby'', percentage_js = Finite 5\<rparr>,
      \<lparr>fundId_js = ''general-savings'', percentage_js = Finite 10\<rparr>,
      \<lparr>fundId_js = ''misc'', percentage_js = Finite 10\<rparr>,
      \<lparr>fundId_js = ''taxes'', percentage_js = Finite 5\<rparr>]"
  by (simp add: distribution_js_def DEFAULT_DISTRIBUTION_def double_eval)

lemma default_total_js: "total_js (distribution_js DEFAULT_DISTRIBUTION) = Finite 100"
  unfolding default_distribution_js by (simp add: total_js_def double_eval)

lemma default_accepted:
  "distributeProfit_js p (distribution_js DEFAULT_DISTRIBUTION)
     = Value (distribute_loop_js p (distribution_js DEFAULT_DISTRIBUTION) [] p)"
  unfolding distributeProfit_js_cases default_total_js
  by (simp add: jsub_def jgt_def double_eval)

lemma alloc_006:
  "distribute_loop_js (double 0.06) (distribution_js DEFAULT_DISTRIBUTION) [] (double 0.06) =
     [(''business-savings'', double 0.01), (''reinvestment'', double 0.01),
      (''personal'', double 0.02), (''emergency'', double 0.01), (''baby'', Finite 0),
      (''general-savings'', double 0.01), (''misc'', double 0.01), (''taxes'', double (- 0.01))]"
  unfolding default_distribution_js
  by (simp add: assign_js_def jsub_def Math_round_def double_eval)

lemma alloc_04:
  "distribute_loop_js (double 0.4) (distribution_js DEFAULT_DISTRIBUTION) [] (double 0.4) =
     [(''business-savings'', double 0.08), (''reinvestment'', double 0.06),
      (''personal'', double 0.1), (''emergency'', double 0.04), (''baby'', double 0.02),
      (''general-savings'', double 0.04), (''misc'', double 0.04), (''taxes'', double 0.02)]"
  unfolding default_distribution_js
  by (simp add: assign_js_def jsub_def Math_round_def double_eval)

text \<open>
  The steps of \<open>addTransaction\<close> and of \<open>applyTransactionToFunds\<close> for an income and
  for an expense that validation accepts.
\<close>

lemma valid_isValid: "isValid valid"
  by (simp add: valid_def)

lemma state_of_Done: "r = Done x \<Longrightarrow> Done (state_of r s) = r"
  by (simp add: state_of_def)

lemma get_js_own: "fs k = Some f \<Longrightarrow> get_js fs k = Some f"
  by (simp add: get_js_def)

lemma get_js_constructor: "fs ''constructor'' = None \<Longrightarrow> get_js fs ''constructor'' = Some no_properties"
  by (simp add: get_js_def Object_prototype_names_def)

lemma addTransaction_js_income:
  assumes "validateTransaction_js d (funds_js s) now_v = Value v" and "isValid v"
    and "type_js d = INCOME"
    and "calculateProfit_js (amount_js d) (costOfProduction_js d) = Value pr"
    and "distributeProfit_js pr (profitDistribution_js s) = Value m"
  shows "addTransaction_js d now_v now now_a uuid s =
     Done (s\<lparr>funds_js := fold (credit_js now_a) m (funds_js s),
       transactions_js := transactions_js s @
         [\<lparr>type_js = INCOME, amount_js = amount_js d, date_js = date_js d,
           description_js = description_js d, costOfProduction_js = costOfProduction_js d,
           profit_js = Some pr, sourceFundId_js = sourceFundId_js d,
           id_js = uuid, createdAt_tjs = now, updatedAt_tjs = now\<rparr>],
       lastUpdated_js := now\<rparr>)"
  using assms
  by (simp add: addTransaction_js_def applyTransactionToFunds_js_def)

lemma addTransaction_js_expense:
  assumes "validateTransaction_js d (funds_js s) now_v = Value v" and "isValid v"
    and "type_js d = EXPENSE" and "sourceFundId_js d = Some sid" and "sid \<noteq> []"
    and "sid \<noteq> ''__proto__''" and "get_js (funds_js s) sid = Some fund"
  shows "addTransaction_js d now_v now now_a uuid s =
     Done (s\<lparr>funds_js := (funds_js s)(sid \<mapsto>
         fund\<lparr>currentBalance_js := Some (jsub (to_number (currentBalance_js fund)) (amount_js d)),
              lifetimeOutflow_js := Some (jadd (to_number (lifetimeOutflow_js fund)) (amount_js d)),
              updatedAt_js := Some now_a\<rparr>),
       transactions_js := transactions_js s @
         [\<lparr>type_js = EXPENSE, amount_js = amount_js d, date_js = date_js d,
           description_js = description_js d, costOfProduction_js = costOfProduction_js d,
           profit_js = None, sourceFundId_js = Some sid,
           id_js = uuid, createdAt_tjs = now, updatedAt_tjs = now\<rparr>],
       lastUpdated_js := now\<rparr>)"
  using assms
  by (simp add: addTransaction_js_def applyTransactionToFunds_js_def)

lemma income_js_valid:
  "double a = Finite x \<Longrightarrow> 0 < x \<Longrightarrow> double x = Finite x \<Longrightarrow>
   validateTransaction_js (income_js a) fs 0 = Value valid"
  by (simp add: validateTransaction_js_def income_js_def calculateProfit_js_def to_number_def
      jgt_def jle_def jsub_def)

lemma income_js_profit:
  "double a = Finite x \<Longrightarrow> 0 < x \<Longrightarrow> double x = Finite x \<Longrightarrow>
   calculateProfit_js (amount_js (income_js a)) (costOfProduction_js (income_js a)) = Value (double a)"
  by (simp add: income_js_def calculateProfit_js_def to_number_def jgt_def jsub_def)

lemma expense_js_valid:
  "get_js fs sid = Some f \<Longrightarrow> sid \<noteq> [] \<Longrightarrow> \<not> jle a (Finite 0) \<Longrightarrow>
   \<not> jlt (to_number (currentBalance_js f)) a \<Longrightarrow>
   validateTransaction_js (expense_js a sid) fs 0 = Value valid"
  by (simp add: validateTransaction_js_def expense_js_def jgt_def)

lemma expense_js_facts:
  "type_js (expense_js a sid) = EXPENSE" "sourceFundId_js (expense_js a sid) = Some sid"
  "amount_js (expense_js a sid) = a"
  by (simp_all add: expense_js_def)






lemma misc_initial:
  "funds_js (initial_state_js 0) ''misc'' =
     Some \<lparr>rest_js = Some \<lparr>name = ''Misc / Flex'', description = ''Discretionary spending'',
                          color = Some ''#EC4899'', isTaxFund = None, fund_id_js = ''misc'',
                          createdAt_js = 0\<rparr>,
          currentBalance_js = Some (Finite 0), lifetimeInflow_js = Some (Finite 0),
          lifetimeOutflow_js = Some (Finite 0), updatedAt_js = Some 0\<rparr>"
  by (simp add: initial_state_js_def DEFAULT_FUNDS_def fund_js_def double_def)

lemma constructor_initial: "funds_js (initial_state_js 0) ''constructor'' = None"
  by (simp add: initial_state_js_def DEFAULT_FUNDS_def)

lemma misc_ne: "''misc'' \<noteq> []" "''misc'' \<noteq> ''__proto__''"
  by simp_all

section \<open>The tolerance of the distribution check\<close>

lemma total_60_3999:
  "total_js [\<lparr>fundId_js = f, percentage_js = Finite 60\<rparr>,
             \<lparr>fundId_js = g, percentage_js = double 39.99\<rparr>]
   = Finite (439760670645289 / 4398046511104)"
  by (simp add: total_js_def double_eval)

lemma total_60_3998:
  "total_js [\<lparr>fundId_js = f, percentage_js = Finite 60\<rparr>,
             \<lparr>fundId_js = g, percentage_js = double 39.98\<rparr>]
   = Finite (3517733521441423 / 35184372088832)"
  by (simp add: total_js_def double_eval)

lemma total_9999:
  "total_js [\<lparr>fundId_js = f, percentage_js = double 99.99\<rparr>]
   = Finite (7036170730324623 / 70368744177664)"
  by (simp add: total_js_def double_eval)

lemma off_by_eval:
  "jgt (jabs (jsub (Finite (439760670645289 / 4398046511104)) (Finite 100))) (double 0.01) = False"
  "jgt (jabs (jsub (Finite (3517733521441423 / 35184372088832)) (Finite 100))) (double 0.01) = True"
  "jgt (jabs (jsub (Finite (7036170730324623 / 70368744177664)) (Finite 100))) (double 0.01) = True"
  "jgt (jabs (jsub (Finite 100) (Finite 100))) (double 0.01) = False"
  "jgt (jabs (jsub (Finite 0) (Finite 100))) (double 0.01) = True"
  by (simp_all add: jsub_def jgt_def double_eval)

text \<open>
  Claim C4, as the code has it: \<open>distributeProfit\<close> throws exactly when
  \<open>Math.abs(total - 100) > 0.01\<close> holds for the total that the reduction computes in
  double precision, with the message that carries this total, and otherwise returns the
  allocations; nothing is allocated before the test. The singleton 100 is accepted. The
  distribution 60, 39.99 is accepted: its total is the double 99.99000000000001, which
  differs from 100 by less than the double 0.01. The distribution 60, 39.98, the
  singleton 99.99 (its distance from 100 in doubles is 0.010000000000005116) and the
  empty distribution are rejected.
\<close>

theorem distributeProfit_js_rejects_iff:
  "((\<exists>e. distributeProfit_js p ds = Exception e) \<longleftrightarrow>
      jgt (jabs (jsub (total_js ds) (Finite 100))) (double 0.01))
   \<and> (jgt (jabs (jsub (total_js ds) (Finite 100))) (double 0.01) \<longrightarrow>
        distributeProfit_js p ds = Exception (Error (Must_sum_to_100_js (total_js ds))))
   \<and> (\<not> jgt (jabs (jsub (total_js ds) (Finite 100))) (double 0.01) \<longrightarrow>
        distributeProfit_js p ds = Value (distribute_loop_js p ds [] p))
   \<and> distributeProfit_js p [\<lparr>fundId_js = f, percentage_js = Finite 100\<rparr>]
        = Value (distribute_loop_js p [\<lparr>fundId_js = f, percentage_js = Finite 100\<rparr>] [] p)
   \<and> total_js [\<lparr>fundId_js = f, percentage_js = Finite 60\<rparr>,
                \<lparr>fundId_js = g, percentage_js = double 39.99\<rparr>]
        = Finite (439760670645289 / 4398046511104)
   \<and> distributeProfit_js p [\<lparr>fundId_js = f, percentage_js = Finite 60\<rparr>,
                             \<lparr>fundId_js = g, percentage_js = double 39.99\<rparr>]
        = Value (distribute_loop_js p
            [\<lparr>fundId_js = f, percentage_js = Finite 60\<rparr>,
             \<lparr>fundId_js = g, percentage_js = double 39.99\<rparr>] [] p)
   \<and> distributeProfit_js p [\<lparr>fundId_js = f, percentage_js = Finite 60\<rparr>,
                             \<lparr>fundId_js = g, percentage_js = double 39.98\<rparr>]
        = Exception (Error (Must_sum_to_100_js (Finite (3517733521441423 / 35184372088832))))
   \<and> distributeProfit_js p [\<lparr>fundId_js = f, percentage_js = double 99.99\<rparr>]
        = Exception (Error (Must_sum_to_100_js (Finite (7036170730324623 / 70368744177664))))
   \<and> distributeProfit_js p [] = Exception (Error (Must_sum_to_100_js (Finite 0)))"
proof -
  have a: "distributeProfit_js p [\<lparr>fundId_js = f, percentage_js = Finite 100\<rparr>]
        = Value (distribute_loop_js p [\<lparr>fundId_js = f, percentage_js = Finite 100\<rparr>] [] p)"
  proof -
    have "total_js [\<lparr>fundId_js = f, percentage_js = Finite 100\<rparr>] = Finite 100"
      by (simp add: total_js_def double_eval)
    then show ?thesis by (simp only: distributeProfit_js_cases off_by_eval if_False)
  qed
  have b: "distributeProfit_js p [\<lparr>fundId_js = f, percentage_js = Finite 60\<rparr>,
                             \<lparr>fundId_js = g, percentage_js = double 39.99\<rparr>]
        = Value (distribute_loop_js p
            [\<lparr>fundId_js = f, percentage_js = Finite 60\<rparr>,
             \<lparr>fundId_js = g, percentage_js = double 39.99\<rparr>] [] p)"
    by (simp only: distributeProfit_js_cases total_60_3999 off_by_eval if_False)
  have c: "distributeProfit_js p [\<lparr>fundId_js = f, percentage_js = Finite 60\<rparr>,
                             \<lparr>fundId_js = g, percentage_js = double 39.98\<rparr>]
        = Exception (Error (Must_sum_to_100_js (Finite (3517733521441423 / 35184372088832))))"
    by (simp only: distributeProfit_js_cases total_60_3998 off_by_eval if_True)
  have d: "distributeProfit_js p [\<lparr>fundId_js = f, percentage_js = double 99.99\<rparr>]
        = Exception (Error (Must_sum_to_100_js (Finite (7036170730324623 / 70368744177664))))"
    by (simp only: distributeProfit_js_cases total_9999 off_by_eval if_True)
  have e: "distributeProfit_js p [] = Exception (Error (Must_sum_to_100_js (Finite 0)))"
  proof -
    have "total_js [] = Finite 0" by (simp add: total_js_def)
    then show ?thesis by (simp only: distributeProfit_js_cases off_by_eval if_True)
  qed
  have g: "(\<exists>e. distributeProfit_js p ds = Exception e) \<longleftrightarrow>
      jgt (jabs (jsub (total_js ds) (Finite 100))) (double 0.01)"
    by (simp add: distributeProfit_js_cases)
  have h: "jgt (jabs (jsub (total_js ds) (Finite 100))) (double 0.01) \<longrightarrow>
        distributeProfit_js p ds = Exception (Error (Must_sum_to_100_js (total_js ds)))"
    by (simp add: distributeProfit_js_cases)
  have i: "\<not> jgt (jabs (jsub (total_js ds) (Finite 100))) (double 0.01) \<longrightarrow>
        distributeProfit_js p ds = Value (distribute_loop_js p ds [] p)"
    by (simp add: distributeProfit_js_cases)
  show ?thesis by (intro conjI g h i a total_60_3999 b c d e)
qed

lemma alloc_600_half:
  "distribute_loop_js (Finite 600)
     [\<lparr>fundId_js = ''A'', percentage_js = Finite 50\<rparr>, \<lparr>fundId_js = ''B'', percentage_js = Finite 50\<rparr>]
     [] (Finite 600) = [(''A'', Finite 300), (''B'', Finite 300)]"
  by (simp add: assign_js_def jsub_def Math_round_def double_eval)

text \<open>
  The distribution 60, 30 is rejected with its total 90; the distribution 50, 50
  allocates a profit of 600 as 300 and 300.
\<close>

theorem distributeProfit_js_rejects_witness:
  "jgt (jabs (jsub (total_js [\<lparr>fundId_js = ''A'', percentage_js = Finite 60\<rparr>,
                              \<lparr>fundId_js = ''B'', percentage_js = Finite 30\<rparr>]) (Finite 100)))
     (double 0.01)
   \<and> distributeProfit_js (Finite 600) [\<lparr>fundId_js = ''A'', percentage_js = Finite 60\<rparr>,
                                       \<lparr>fundId_js = ''B'', percentage_js = Finite 30\<rparr>]
       = Exception (Error (Must_sum_to_100_js (Finite 90)))
   \<and> \<not> jgt (jabs (jsub (total_js [\<lparr>fundId_js = ''A'', percentage_js = Finite 50\<rparr>,
                              \<lparr>fundId_js = ''B'', percentage_js = Finite 50\<rparr>]) (Finite 100)))
     (double 0.01)
   \<and> distributeProfit_js (Finite 600) [\<lparr>fundId_js = ''A'', percentage_js = Finite 50\<rparr>,
                                       \<lparr>fundId_js = ''B'', percentage_js = Finite 50\<rparr>]
       = Value [(''A'', Finite 300), (''B'', Finite 300)]"
proof -
  let ?bad = "[\<lparr>fundId_js = ''A'', percentage_js = Finite 60\<rparr>,
               \<lparr>fundId_js = ''B'', percentage_js = Finite 30\<rparr>]"
  let ?good = "[\<lparr>fundId_js = ''A'', percentage_js = Finite 50\<rparr>,
                \<lparr>fundId_js = ''B'', percentage_js = Finite 50\<rparr>]"
  have tb: "total_js ?bad = Finite 90" by (simp add: total_js_def double_eval)
  have tg: "total_js ?good = Finite 100" by (simp add: total_js_def double_eval)
  have b: "jgt (jabs (jsub (total_js ?bad) (Finite 100))) (double 0.01)"
    unfolding tb by (simp add: jsub_def jgt_def double_eval)
  have g: "\<not> jgt (jabs (jsub (total_js ?good) (Finite 100))) (double 0.01)"
    unfolding tg by (simp add: jsub_def jgt_def double_eval)
  note T = distributeProfit_js_rejects_iff [of "Finite 600" ?bad]
  have 1: "distributeProfit_js (Finite 600) ?bad = Exception (Error (Must_sum_to_100_js (Finite 90)))"
    using T [THEN conjunct2, THEN conjunct1, rule_format, OF b] unfolding tb .
  note U = distributeProfit_js_rejects_iff [of "Finite 600" ?good]
  have 2: "distributeProfit_js (Finite 600) ?good = Value [(''A'', Finite 300), (''B'', Finite 300)]"
    using U [THEN conjunct2, THEN conjunct2, THEN conjunct1, rule_format, OF g]
    unfolding alloc_600_half .
  show ?thesis by (intro conjI b 1 g 2)
qed

text \<open>
  The distribution 60, 39.99, which claim C4 calls invalid, is valid for the code and a
  profit of 100 is allocated as 60 and 40.
\<close>

theorem boundary_distribution_accepted_counterexample:
  "isValid (validateProfitDistribution_js
      [\<lparr>fundId_js = ''A'', percentage_js = Finite 60\<rparr>,
       \<lparr>fundId_js = ''B'', percentage_js = double 39.99\<rparr>])
   \<and> distributeProfit_js (Finite 100)
        [\<lparr>fundId_js = ''A'', percentage_js = Finite 60\<rparr>,
         \<lparr>fundId_js = ''B'', percentage_js = double 39.99\<rparr>]
       = Value [(''A'', Finite 60), (''B'', Finite 40)]"
proof -
  have v: "isValid (validateProfitDistribution_js
      [\<lparr>fundId_js = ''A'', percentage_js = Finite 60\<rparr>,
       \<lparr>fundId_js = ''B'', percentage_js = double 39.99\<rparr>])"
    by (simp only: validateProfitDistribution_js_def Let_def total_60_3999 off_by_eval if_False)
      (simp add: valid_def)
  have l: "distribute_loop_js (Finite 100)
        [\<lparr>fundId_js = ''A'', percentage_js = Finite 60\<rparr>,
         \<lparr>fundId_js = ''B'', percentage_js = double 39.99\<rparr>] [] (Finite 100)
       = [(''A'', Finite 60), (''B'', Finite 40)]"
    by (simp add: assign_js_def jsub_def Math_round_def double_eval)
  have d: "distributeProfit_js (Finite 100)
        [\<lparr>fundId_js = ''A'', percentage_js = Finite 60\<rparr>,
         \<lparr>fundId_js = ''B'', percentage_js = double 39.99\<rparr>]
       = Value [(''A'', Finite 60), (''B'', Finite 40)]"
    by (simp only: distributeProfit_js_cases total_60_3999 off_by_eval if_False l)
  show ?thesis by (intro conjI v d)
qed

section \<open>Rejected transactions\<close>

lemma calculateProfit_js_accepts:
  "\<not> jlt c (Finite 0) \<Longrightarrow> \<not> jgt c a \<Longrightarrow> \<not> jle a (Finite 0) \<Longrightarrow>
   calculateProfit_js a (Some c) = Value (jsub a c)"
  by (cases a; cases c) (simp_all add: calculateProfit_js_def to_number_def jgt_def jle_def)

lemma validateTransaction_js_Value: "\<exists>v. validateTransaction_js t fs now = Value v"
proof -
  have "\<exists>v. bind_js (calculateProfit_js a (Some c)) (\<lambda>pr. if jlt pr (Finite 0)
                       then Value (invalid (Literal ''Profit must be non-negative''))
                       else Value valid) = Value v"
    if "\<not> jlt c (Finite 0)" "\<not> jgt c a" "\<not> jle a (Finite 0)" for a c
    using calculateProfit_js_accepts [OF that] by simp
  then show ?thesis
    by (simp add: validateTransaction_js_def split: TransactionType.splits option.splits)
qed

lemma validateTransaction_js_error:
  assumes "validateTransaction_js t fs now = Value v" and "\<not> isValid v"
  shows "\<exists>m. error v = Some m"
proof -
  have *: "\<exists>m. error v = Some m"
    if "bind_js (calculateProfit_js a (Some c)) (\<lambda>pr. if jlt pr (Finite 0)
                       then Value (invalid (Literal ''Profit must be non-negative''))
                       else Value valid) = Value v"
      and "\<not> jlt c (Finite 0)" "\<not> jgt c a" "\<not> jle a (Finite 0)" for a c
    using that(1) assms(2) unfolding calculateProfit_js_accepts [OF that(2,3,4)]
    by (auto simp: valid_def invalid_def split: if_splits)
  show ?thesis
    using assms *
    by (auto simp: validateTransaction_js_def valid_def invalid_def
        split: TransactionType.splits option.splits if_splits)
qed

lemma addTransaction_js_rejected:
  "validateTransaction_js d (funds_js s) now_v = Value v \<Longrightarrow> \<not> isValid v \<Longrightarrow>
   error v = Some m \<Longrightarrow>
   addTransaction_js d now_v now now_a uuid s = Thrown (Error m) s"
  by (simp add: addTransaction_js_def)

lemma addTransaction_js_Thrown_state:
  "addTransaction_js d now_v now now_a uuid s = Thrown e s' \<Longrightarrow> s' = s"
  by (auto simp: addTransaction_js_def Let_def split: completion.splits if_splits)

lemma rejected_by_js:
  "validateTransaction_js d (funds_js s) now_v = Value (invalid m) \<Longrightarrow>
   addTransaction_js d now_v now now_a uuid s = Thrown (Error m) s"
  by (rule addTransaction_js_rejected [where v = "invalid m"]) (simp_all add: invalid_def)

lemma validate_js_amount:
  "jle (amount_js t) (Finite 0) \<Longrightarrow>
   validateTransaction_js t fs now = Value (invalid (Literal ''Amount must be positive''))"
  by (simp add: validateTransaction_js_def)

lemma validate_js_date:
  "\<not> jle (amount_js t) (Finite 0) \<Longrightarrow> jgt (date_js t) (Finite (of_int now)) \<Longrightarrow>
   validateTransaction_js t fs now
     = Value (invalid (Literal ''Transaction date cannot be in the future''))"
  by (simp add: validateTransaction_js_def)

lemma validate_js_cost_missing:
  "\<not> jle (amount_js t) (Finite 0) \<Longrightarrow> \<not> jgt (date_js t) (Finite (of_int now)) \<Longrightarrow>
   type_js t = INCOME \<Longrightarrow> costOfProduction_js t = None \<Longrightarrow>
   validateTransaction_js t fs now
     = Value (invalid (Literal ''Cost of production is required for income''))"
  by (simp add: validateTransaction_js_def)

lemma validate_js_cost_negative:
  "\<not> jle (amount_js t) (Finite 0) \<Longrightarrow> \<not> jgt (date_js t) (Finite (of_int now)) \<Longrightarrow>
   type_js t = INCOME \<Longrightarrow> costOfProduction_js t = Some c \<Longrightarrow> jlt c (Finite 0) \<Longrightarrow>
   validateTransaction_js t fs now
     = Value (invalid (Literal ''Cost of production cannot be negative''))"
  by (simp add: validateTransaction_js_def)

lemma validate_js_cost_exceeds:
  "\<not> jle (amount_js t) (Finite 0) \<Longrightarrow> \<not> jgt (date_js t) (Finite (of_int now)) \<Longrightarrow>
   type_js t = INCOME \<Longrightarrow> costOfProduction_js t = Some c \<Longrightarrow> \<not> jlt c (Finite 0) \<Longrightarrow>
   jgt c (amount_js t) \<Longrightarrow>
   validateTransaction_js t fs now
     = Value (invalid (Literal ''Cost of production cannot exceed income''))"
  by (simp add: validateTransaction_js_def)

lemma validate_js_source_missing:
  "\<not> jle (amount_js t) (Finite 0) \<Longrightarrow> \<not> jgt (date_js t) (Finite (of_int now)) \<Longrightarrow>
   type_js t = EXPENSE \<Longrightarrow> sourceFundId_js t = None \<or> sourceFundId_js t = Some [] \<Longrightarrow>
   validateTransaction_js t fs now
     = Value (invalid (Literal ''Source fund is required for expenses''))"
  by (auto simp: validateTransaction_js_def)

lemma validate_js_source_unknown:
  "\<not> jle (amount_js t) (Finite 0) \<Longrightarrow> \<not> jgt (date_js t) (Finite (of_int now)) \<Longrightarrow>
   type_js t = EXPENSE \<Longrightarrow> sourceFundId_js t = Some sid \<Longrightarrow> sid \<noteq> [] \<Longrightarrow>
   fs sid = None \<Longrightarrow> sid \<notin> set Object_prototype_names \<Longrightarrow>
   validateTransaction_js t fs now = Value (invalid (Literal ''Selected fund does not exist''))"
  by (simp add: validateTransaction_js_def get_js_def)

lemma validate_js_insufficient:
  "\<not> jle (amount_js t) (Finite 0) \<Longrightarrow> \<not> jgt (date_js t) (Finite (of_int now)) \<Longrightarrow>
   type_js t = EXPENSE \<Longrightarrow> sourceFundId_js t = Some sid \<Longrightarrow> sid \<noteq> [] \<Longrightarrow>
   fs sid = Some f \<Longrightarrow> jlt (to_number (currentBalance_js f)) (amount_js t) \<Longrightarrow>
   validateTransaction_js t fs now
     = Value (invalid (Literal ''Insufficient funds in selected account''))"
  by (simp add: validateTransaction_js_def get_js_def)

text \<open>
  Claim C3: whenever \<open>validateTransaction\<close> returns an invalid result,
  \<open>addTransaction\<close> throws an \<open>Error\<close> with the reason of that result and the state
  (the fund collection and the transaction list with it) is the state before the call.
  Each rule of the validation rejects with its own reason: an amount that is not
  positive, a date in the future, an income without cost, with a negative cost or with a
  cost above the amount, an expense without source fund, with a source fund that is
  neither a key of the collection nor the name of a property that the collection inherits
  from \<open>Object.prototype\<close>, or with an amount above the balance of its source fund. A
  call that throws for any reason leaves the state as it was.
\<close>

theorem rejected_transaction_mutates_nothing:
  "(\<forall>v. validateTransaction_js d (funds_js s) now_v = Value v \<longrightarrow> \<not> isValid v \<longrightarrow>
      (\<exists>m. error v = Some m
         \<and> addTransaction_js d now_v now now_a uuid s = Thrown (Error m) s))
   \<and> (jle (amount_js d) (Finite 0) \<longrightarrow>
        addTransaction_js d now_v now now_a uuid s
          = Thrown (Error (Literal ''Amount must be positive'')) s)
   \<and> (\<not> jle (amount_js d) (Finite 0) \<longrightarrow> jgt (date_js d) (Finite (of_int now_v)) \<longrightarrow>
        addTransaction_js d now_v now now_a uuid s
          = Thrown (Error (Literal ''Transaction date cannot be in the future'')) s)
   \<and> (\<not> jle (amount_js d) (Finite 0) \<longrightarrow> \<not> jgt (date_js d) (Finite (of_int now_v)) \<longrightarrow>
        type_js d = INCOME \<longrightarrow> costOfProduction_js d = None \<longrightarrow>
        addTransaction_js d now_v now now_a uuid s
          = Thrown (Error (Literal ''Cost of production is required for income'')) s)
   \<and> (\<forall>c. \<not> jle (amount_js d) (Finite 0) \<longrightarrow> \<not> jgt (date_js d) (Finite (of_int now_v)) \<longrightarrow>
        type_js d = INCOME \<longrightarrow> costOfProduction_js d = Some c \<longrightarrow> jlt c (Finite 0) \<longrightarrow>
        addTransaction_js d now_v now now_a uuid s
          = Thrown (Error (Literal ''Cost of production cannot be negative'')) s)
   \<and> (\<forall>c. \<not> jle (amount_js d) (Finite 0) \<longrightarrow> \<not> jgt (date_js d) (Finite (of_int now_v)) \<longrightarrow>
        type_js d = INCOME \<longrightarrow> costOfProduction_js d = Some c \<longrightarrow> \<not> jlt c (Finite 0) \<longrightarrow>
        jgt c (amount_js d) \<longrightarrow>
        addTransaction_js d now_v now now_a uuid s
          = Thrown (Error (Literal ''Cost of production cannot exceed income'')) s)
   \<and> (\<not> jle (amount_js d) (Finite 0) \<longrightarrow> \<not> jgt (date_js d) (Finite (of_int now_v)) \<longrightarrow>
        type_js d = EXPENSE \<longrightarrow>
        sourceFundId_js d = None \<or> sourceFundId_js d = Some [] \<longrightarrow>
        addTransaction_js d now_v now now_a uuid s
          = Thrown (Error (Literal ''Source fund is required for expenses'')) s)
   \<and> (\<forall>sid. \<not> jle (amount_js d) (Finite 0) \<longrightarrow>
        \<not> jgt (date_js d) (Finite (of_int now_v)) \<longrightarrow> type_js d = EXPENSE \<longrightarrow>
        sourceFundId_js d = Some sid \<longrightarrow> sid \<noteq> [] \<longrightarrow> funds_js s sid = None \<longrightarrow>
        sid \<notin> set Object_prototype_names \<longrightarrow>
        addTransaction_js d now_v now now_a uuid s
          = Thrown (Error (Literal ''Selected fund does not exist'')) s)
   \<and> (\<forall>sid f. \<not> jle (amount_js d) (Finite 0) \<longrightarrow>
        \<not> jgt (date_js d) (Finite (of_int now_v)) \<longrightarrow> type_js d = EXPENSE \<longrightarrow>
        sourceFundId_js d = Some sid \<longrightarrow> sid \<noteq> [] \<longrightarrow> funds_js s sid = Some f \<longrightarrow>
        jlt (to_number (currentBalance_js f)) (amount_js d) \<longrightarrow>
        addTransaction_js d now_v now now_a uuid s
          = Thrown (Error (Literal ''Insufficient funds in selected account'')) s)
   \<and> (\<forall>e s'. addTransaction_js d now_v now now_a uuid s = Thrown e s' \<longrightarrow> s' = s)"
proof (intro conjI allI impI)
  fix v assume "validateTransaction_js d (funds_js s) now_v = Value v" "\<not> isValid v"
  then show "\<exists>m. error v = Some m
      \<and> addTransaction_js d now_v now now_a uuid s = Thrown (Error m) s"
    using validateTransaction_js_error addTransaction_js_rejected by blast
next
  fix e s' assume "addTransaction_js d now_v now now_a uuid s = Thrown e s'"
  then show "s' = s" by (rule addTransaction_js_Thrown_state)
qed (blast intro: rejected_by_js validate_js_amount validate_js_date validate_js_cost_missing
      validate_js_cost_negative validate_js_cost_exceeds validate_js_source_missing
      validate_js_source_unknown validate_js_insufficient)+

text \<open>
  An expense of 50 on a fund that holds 30 is rejected for insufficient funds and the
  state is unchanged.
\<close>

theorem rejected_transaction_witness:
  "validateTransaction_js expense_50_js (funds_js state_30_js) 1
     = Value (invalid (Literal ''Insufficient funds in selected account''))
   \<and> \<not> isValid (invalid (Literal ''Insufficient funds in selected account''))
   \<and> addTransaction_js expense_50_js 1 2 3 ''tx-1'' state_30_js
       = Thrown (Error (Literal ''Insufficient funds in selected account'')) state_30_js"
proof -
  have v: "validateTransaction_js expense_50_js (funds_js state_30_js) 1
     = Value (invalid (Literal ''Insufficient funds in selected account''))"
    by (simp add: validateTransaction_js_def expense_50_js_def state_30_js_def get_js_def
        to_number_def jle_def jgt_def)
  have n: "\<not> isValid (invalid (Literal ''Insufficient funds in selected account''))"
    by (simp add: invalid_def)
  have e: "error (invalid (Literal ''Insufficient funds in selected account''))
      = Some (Literal ''Insufficient funds in selected account'')"
    by (simp add: invalid_def)
  from rejected_transaction_mutates_nothing
      [of expense_50_js state_30_js 1 2 3 "''tx-1''", THEN conjunct1, rule_format, OF v n]
  obtain m where "error (invalid (Literal ''Insufficient funds in selected account'')) = Some m"
    and "addTransaction_js expense_50_js 1 2 3 ''tx-1'' state_30_js
      = Thrown (Error m) state_30_js"
    by blast
  then show ?thesis using v n e by simp
qed

section \<open>The balance and the two counters\<close>

lemma add_income_04:
  "addTransaction_js (income_js 0.4) 0 0 0 ''tx-1'' (initial_state_js 0) = Done after_income_04_js"
proof -
  have v: "validateTransaction_js (income_js 0.4) (funds_js (initial_state_js 0)) 0 = Value valid"
    by (rule income_js_valid [OF double_04 _ double_04_fix]) simp
  have i: "isValid valid" by (simp add: valid_def)
  have t: "type_js (income_js 0.4) = INCOME" by (simp add: income_js_def)
  have p: "calculateProfit_js (amount_js (income_js 0.4)) (costOfProduction_js (income_js 0.4))
      = Value (double 0.4)"
    by (rule income_js_profit [OF double_04 _ double_04_fix]) simp
  have d: "distributeProfit_js (double 0.4) (profitDistribution_js (initial_state_js 0))
      = Value (distribute_loop_js (double 0.4) (distribution_js DEFAULT_DISTRIBUTION) [] (double 0.4))"
    by (simp add: initial_state_js_def default_accepted)
  show ?thesis
    unfolding after_income_04_js_def
      addTransaction_js_income [OF v i t p d, of 0 0 "''tx-1''"]
    by (simp add: state_of_def)
qed

lemma misc_after_income_04:
  "funds_js after_income_04_js ''misc'' =
     Some \<lparr>rest_js = Some \<lparr>name = ''Misc / Flex'', description = ''Discretionary spending'',
                          color = Some ''#EC4899'', isTaxFund = None, fund_id_js = ''misc'',
                          createdAt_js = 0\<rparr>,
          currentBalance_js = Some (double 0.04), lifetimeInflow_js = Some (double 0.04),
          lifetimeOutflow_js = Some (Finite 0), updatedAt_js = Some 0\<rparr>"
proof -
  have v: "validateTransaction_js (income_js 0.4) (funds_js (initial_state_js 0)) 0 = Value valid"
    by (rule income_js_valid [OF double_04 _ double_04_fix]) simp
  have i: "isValid valid" by (simp add: valid_def)
  have t: "type_js (income_js 0.4) = INCOME" by (simp add: income_js_def)
  have p: "calculateProfit_js (amount_js (income_js 0.4)) (costOfProduction_js (income_js 0.4))
      = Value (double 0.4)"
    by (rule income_js_profit [OF double_04 _ double_04_fix]) simp
  have d: "distributeProfit_js (double 0.4) (profitDistribution_js (initial_state_js 0))
      = Value (distribute_loop_js (double 0.4) (distribution_js DEFAULT_DISTRIBUTION) [] (double 0.4))"
    by (simp add: initial_state_js_def default_accepted)
  show ?thesis
    unfolding after_income_04_js_def
      addTransaction_js_income [OF v i t p d, of 0 0 "''tx-1''"] alloc_04
    by (simp add: state_of_def initial_state_js_def credit_js_def get_js_def DEFAULT_FUNDS_def
        fund_js_def to_number_def double_eval)
qed

lemma add_expense_003:
  "addTransaction_js (expense_js (double 0.03) ''misc'') 0 0 0 ''tx-2'' after_income_04_js
     = Done after_expense_003_js"
  and misc_after_expense_003:
  "funds_js after_expense_003_js ''misc'' =
     Some \<lparr>rest_js = Some \<lparr>name = ''Misc / Flex'', description = ''Discretionary spending'',
                          color = Some ''#EC4899'', isTaxFund = None, fund_id_js = ''misc'',
                          createdAt_js = 0\<rparr>,
          currentBalance_js = Some (Finite (1441151880758559 / 144115188075855872)),
          lifetimeInflow_js = Some (double 0.04),
          lifetimeOutflow_js = Some (double 0.03), updatedAt_js = Some 0\<rparr>"
proof -
  note g = get_js_own [where fs = "funds_js after_income_04_js" and k = "''misc''", OF misc_after_income_04]
  have v: "validateTransaction_js (expense_js (double 0.03) ''misc'') (funds_js after_income_04_js) 0
      = Value valid"
    by (rule expense_js_valid [OF g]) (unfold double_003 double_004, simp_all add: to_number_def jle_def)
  note a = addTransaction_js_expense [OF v valid_isValid expense_js_facts(1,2) misc_ne g,
      of 0 0 "''tx-2''"]
  show "addTransaction_js (expense_js (double 0.03) ''misc'') 0 0 0 ''tx-2'' after_income_04_js
     = Done after_expense_003_js"
    unfolding after_expense_003_js_def by (rule state_of_Done [OF a, symmetric])
  show "funds_js after_expense_003_js ''misc'' =
     Some \<lparr>rest_js = Some \<lparr>name = ''Misc / Flex'', description = ''Discretionary spending'',
                          color = Some ''#EC4899'', isTaxFund = None, fund_id_js = ''misc'',
                          createdAt_js = 0\<rparr>,
          currentBalance_js = Some (Finite (1441151880758559 / 144115188075855872)),
          lifetimeInflow_js = Some (double 0.04),
          lifetimeOutflow_js = Some (double 0.03), updatedAt_js = Some 0\<rparr>"
    unfolding after_expense_003_js_def
    by (subst a, unfold double_003 double_004)
      (simp add: state_of_def expense_js_facts to_number_def jsub_def double_eval)
qed

lemma add_expense_001:
  "addTransaction_js (expense_js (double 0.01) ''misc'') 0 0 0 ''tx-3'' after_expense_003_js
     = Done after_expense_001_js"
  and misc_after_expense_001:
  "funds_js after_expense_001_js ''misc'' =
     Some \<lparr>rest_js = Some \<lparr>name = ''Misc / Flex'', description = ''Discretionary spending'',
                          color = Some ''#EC4899'', isTaxFund = None, fund_id_js = ''misc'',
                          createdAt_js = 0\<rparr>,
          currentBalance_js = Some (Finite (1 / 2 ^ 59)), lifetimeInflow_js = Some (double 0.04),
          lifetimeOutflow_js = Some (double 0.04), updatedAt_js = Some 0\<rparr>"
proof -
  note g = get_js_own [where fs = "funds_js after_expense_003_js" and k = "''misc''",
      OF misc_after_expense_003]
  have v: "validateTransaction_js (expense_js (double 0.01) ''misc'') (funds_js after_expense_003_js) 0
      = Value valid"
    by (rule expense_js_valid [OF g]) (unfold double_001, simp_all add: to_number_def jle_def)
  note a = addTransaction_js_expense [OF v valid_isValid expense_js_facts(1,2) misc_ne g,
      of 0 0 "''tx-3''"]
  show "addTransaction_js (expense_js (double 0.01) ''misc'') 0 0 0 ''tx-3'' after_expense_003_js
     = Done after_expense_001_js"
    unfolding after_expense_001_js_def by (rule state_of_Done [OF a, symmetric])
  show "funds_js after_expense_001_js ''misc'' =
     Some \<lparr>rest_js = Some \<lparr>name = ''Misc / Flex'', description = ''Discretionary spending'',
                          color = Some ''#EC4899'', isTaxFund = None, fund_id_js = ''misc'',
                          createdAt_js = 0\<rparr>,
          currentBalance_js = Some (Finite (1 / 2 ^ 59)), lifetimeInflow_js = Some (double 0.04),
          lifetimeOutflow_js = Some (double 0.04), updatedAt_js = Some 0\<rparr>"
    unfolding after_expense_001_js_def
    by (subst a, unfold double_001 double_003 double_004)
      (simp add: state_of_def expense_js_facts to_number_def jsub_def double_eval)
qed

lemma add_expense_nan:
  "addTransaction_js (expense_js NaN ''misc'') 0 0 0 ''tx-1'' (initial_state_js 0) = Done after_expense_nan_js"
  and misc_after_expense_nan:
  "funds_js after_expense_nan_js ''misc'' =
     Some \<lparr>rest_js = Some \<lparr>name = ''Misc / Flex'', description = ''Discretionary spending'',
                          color = Some ''#EC4899'', isTaxFund = None, fund_id_js = ''misc'',
                          createdAt_js = 0\<rparr>,
          currentBalance_js = Some NaN, lifetimeInflow_js = Some (Finite 0),
          lifetimeOutflow_js = Some NaN, updatedAt_js = Some 0\<rparr>"
proof -
  note g = get_js_own [where fs = "funds_js (initial_state_js 0)" and k = "''misc''", OF misc_initial]
  have v: "validateTransaction_js (expense_js NaN ''misc'') (funds_js (initial_state_js 0)) 0 = Value valid"
    by (rule expense_js_valid [OF g]) (simp_all add: to_number_def jle_def)
  note a = addTransaction_js_expense [OF v valid_isValid expense_js_facts(1,2) misc_ne g,
      of 0 0 "''tx-1''"]
  show "addTransaction_js (expense_js NaN ''misc'') 0 0 0 ''tx-1'' (initial_state_js 0) = Done after_expense_nan_js"
    unfolding after_expense_nan_js_def by (rule state_of_Done [OF a, symmetric])
  show "funds_js after_expense_nan_js ''misc'' =
     Some \<lparr>rest_js = Some \<lparr>name = ''Misc / Flex'', description = ''Discretionary spending'',
                          color = Some ''#EC4899'', isTaxFund = None, fund_id_js = ''misc'',
                          createdAt_js = 0\<rparr>,
          currentBalance_js = Some NaN, lifetimeInflow_js = Some (Finite 0),
          lifetimeOutflow_js = Some NaN, updatedAt_js = Some 0\<rparr>"
    unfolding after_expense_nan_js_def
    by (subst a) (simp add: state_of_def expense_js_facts to_number_def jsub_def)
qed

text \<open>
  Claim C2 fails on the code. After an income of 0.4 on the initial state (0.04 for the
  fund \<open>misc\<close>) and expenses of 0.03 and of 0.01 on \<open>misc\<close>, each accepted by the
  validation, the fund has \<open>lifetimeInflow\<close> 0.04 and \<open>lifetimeOutflow\<close> 0.04, whose
  difference is 0, and the \<open>currentBalance\<close> \<open>1 / 2 ^ 59\<close> (1.734723475976807e-18):
  the balance is updated by its own subtractions, each rounded. An expense whose amount
  is \<open>NaN\<close> is accepted as well and leaves the balance \<open>NaN\<close>, which equals nothing.
\<close>

theorem balance_differs_from_inflow_minus_outflow:
  "addTransaction_js (income_js 0.4) 0 0 0 ''tx-1'' (initial_state_js 0) = Done after_income_04_js
   \<and> addTransaction_js (expense_js (double 0.03) ''misc'') 0 0 0 ''tx-2'' after_income_04_js
       = Done after_expense_003_js
   \<and> addTransaction_js (expense_js (double 0.01) ''misc'') 0 0 0 ''tx-3'' after_expense_003_js
       = Done after_expense_001_js
   \<and> funds_js after_expense_001_js ''misc'' =
       Some \<lparr>rest_js = Some \<lparr>name = ''Misc / Flex'', description = ''Discretionary spending'',
                          color = Some ''#EC4899'', isTaxFund = None, fund_id_js = ''misc'',
                          createdAt_js = 0\<rparr>,
          currentBalance_js = Some (Finite (1 / 2 ^ 59)), lifetimeInflow_js = Some (double 0.04),
          lifetimeOutflow_js = Some (double 0.04), updatedAt_js = Some 0\<rparr>
   \<and> jsub (double 0.04) (double 0.04) = Finite 0
   \<and> \<not> strict_equal (Finite (1 / 2 ^ 59)) (jsub (double 0.04) (double 0.04))
   \<and> addTransaction_js (expense_js NaN ''misc'') 0 0 0 ''tx-1'' (initial_state_js 0)
       = Done after_expense_nan_js
   \<and> funds_js after_expense_nan_js ''misc'' =
       Some \<lparr>rest_js = Some \<lparr>name = ''Misc / Flex'', description = ''Discretionary spending'',
                          color = Some ''#EC4899'', isTaxFund = None, fund_id_js = ''misc'',
                          createdAt_js = 0\<rparr>,
          currentBalance_js = Some NaN, lifetimeInflow_js = Some (Finite 0),
          lifetimeOutflow_js = Some NaN, updatedAt_js = Some 0\<rparr>
   \<and> \<not> strict_equal NaN (jsub (Finite 0) NaN)"
proof (intro conjI)
  show "jsub (double 0.04) (double 0.04) = Finite 0"
    by (simp add: jsub_def double_eval)
  show "\<not> strict_equal (Finite (1 / 2 ^ 59)) (jsub (double 0.04) (double 0.04))"
    by (simp add: jsub_def double_eval)
  show "\<not> strict_equal NaN (jsub (Finite 0) NaN)"
    by (simp add: jsub_def)
qed (rule add_income_04 add_expense_003 add_expense_001 misc_after_expense_001
       add_expense_nan misc_after_expense_nan)+

section \<open>Expenses that validation accepts\<close>


section \<open>Entries of the distribution that name no fund\<close>




section \<open>The tax fund listed twice\<close>

lemma toggle_initial:
  "toggleTaxFund_js True 1 (initial_state_js 0) =
     Done ((initial_state_js 0)\<lparr>taxEnabled_js := True, profitDistribution_js :=
     [\<lparr>fundId_js = ''business-savings'', percentage_js = Finite 19\<rparr>,
      \<lparr>fundId_js = ''reinvestment'', percentage_js = Finite 14.25\<rparr>,
      \<lparr>fundId_js = ''personal'', percentage_js = Finite 23.75\<rparr>,
      \<lparr>fundId_js = ''emergency'', percentage_js = Finite 9.5\<rparr>,
      \<lparr>fundId_js = ''baby'', percentage_js = Finite 4.75\<rparr>,
      \<lparr>fundId_js = ''general-savings'', percentage_js = Finite 9.5\<rparr>,
      \<lparr>fundId_js = ''misc'', percentage_js = Finite 9.5\<rparr>,
      \<lparr>fundId_js = ''taxes'', percentage_js = Finite 4.75\<rparr>,
      \<lparr>fundId_js = ''taxes'', percentage_js = Finite 5\<rparr>], lastUpdated_js := 1\<rparr>)"
  by (simp add: toggleTaxFund_js_def initial_state_js_def default_distribution_js total_js_def
      double_eval)

lemma toggled_distribution:
  "profitDistribution_js toggled_js =
     [\<lparr>fundId_js = ''business-savings'', percentage_js = Finite 19\<rparr>,
      \<lparr>fundId_js = ''reinvestment'', percentage_js = Finite 14.25\<rparr>,
      \<lparr>fundId_js = ''personal'', percentage_js = Finite 23.75\<rparr>,
      \<lparr>fundId_js = ''emergency'', percentage_js = Finite 9.5\<rparr>,
      \<lparr>fundId_js = ''baby'', percentage_js = Finite 4.75\<rparr>,
      \<lparr>fundId_js = ''general-savings'', percentage_js = Finite 9.5\<rparr>,
      \<lparr>fundId_js = ''misc'', percentage_js = Finite 9.5\<rparr>,
      \<lparr>fundId_js = ''taxes'', percentage_js = Finite 4.75\<rparr>,
      \<lparr>fundId_js = ''taxes'', percentage_js = Finite 5\<rparr>]"
  unfolding toggled_js_def toggle_initial by (simp add: state_of_def)

lemma total_toggled:
  "total_js
     [\<lparr>fundId_js = ''business-savings'', percentage_js = Finite 19\<rparr>,
      \<lparr>fundId_js = ''reinvestment'', percentage_js = Finite 14.25\<rparr>,
      \<lparr>fundId_js = ''personal'', percentage_js = Finite 23.75\<rparr>,
      \<lparr>fundId_js = ''emergency'', percentage_js = Finite 9.5\<rparr>,
      \<lparr>fundId_js = ''baby'', percentage_js = Finite 4.75\<rparr>,
      \<lparr>fundId_js = ''general-savings'', percentage_js = Finite 9.5\<rparr>,
      \<lparr>fundId_js = ''misc'', percentage_js = Finite 9.5\<rparr>,
      \<lparr>fundId_js = ''taxes'', percentage_js = Finite 4.75\<rparr>,
      \<lparr>fundId_js = ''taxes'', percentage_js = Finite 5\<rparr>] = Finite 100"
  by (simp add: total_js_def double_eval)

lemma alloc_toggled:
  "distribute_loop_js (Finite 100)
     [\<lparr>fundId_js = ''business-savings'', percentage_js = Finite 19\<rparr>,
      \<lparr>fundId_js = ''reinvestment'', percentage_js = Finite 14.25\<rparr>,
      \<lparr>fundId_js = ''personal'', percentage_js = Finite 23.75\<rparr>,
      \<lparr>fundId_js = ''emergency'', percentage_js = Finite 9.5\<rparr>,
      \<lparr>fundId_js = ''baby'', percentage_js = Finite 4.75\<rparr>,
      \<lparr>fundId_js = ''general-savings'', percentage_js = Finite 9.5\<rparr>,
      \<lparr>fundId_js = ''misc'', percentage_js = Finite 9.5\<rparr>,
      \<lparr>fundId_js = ''taxes'', percentage_js = Finite 4.75\<rparr>,
      \<lparr>fundId_js = ''taxes'', percentage_js = Finite 5\<rparr>] [] (Finite 100) =
     [(''business-savings'', Finite 19),
      (''reinvestment'', Finite 14.25),
      (''personal'', Finite 23.75),
      (''emergency'', Finite 9.5),
      (''baby'', Finite 4.75),
      (''general-savings'', Finite 9.5),
      (''misc'', Finite 9.5),
      (''taxes'', Finite 5)]"
  by (simp add: assign_js_def jsub_def Math_round_def double_eval)

text \<open>
  Claim C1 fails on the code. Switching the tax toggle on in the initial state, whose
  distribution already lists \<open>taxes\<close>, stores a distribution with two entries for
  \<open>taxes\<close> (4.75 and 5) that sums to 100 and is valid. \<open>distributeProfit\<close> keys its
  result by fund, the last entry overwrites the 4.75 allocated to \<open>taxes\<close> before, and
  the allocations it returns for a profit of 100 sum to 95.25.
\<close>

theorem tax_fund_listed_twice_loses_profit:
  "toggleTaxFund_js True 1 (initial_state_js 0) = Done toggled_js
   \<and> profitDistribution_js toggled_js =
     [\<lparr>fundId_js = ''business-savings'', percentage_js = Finite 19\<rparr>,
      \<lparr>fundId_js = ''reinvestment'', percentage_js = Finite 14.25\<rparr>,
      \<lparr>fundId_js = ''personal'', percentage_js = Finite 23.75\<rparr>,
      \<lparr>fundId_js = ''emergency'', percentage_js = Finite 9.5\<rparr>,
      \<lparr>fundId_js = ''baby'', percentage_js = Finite 4.75\<rparr>,
      \<lparr>fundId_js = ''general-savings'', percentage_js = Finite 9.5\<rparr>,
      \<lparr>fundId_js = ''misc'', percentage_js = Finite 9.5\<rparr>,
      \<lparr>fundId_js = ''taxes'', percentage_js = Finite 4.75\<rparr>,
      \<lparr>fundId_js = ''taxes'', percentage_js = Finite 5\<rparr>]
   \<and> isValid (validateProfitDistribution_js (profitDistribution_js toggled_js))
   \<and> distributeProfit_js (Finite 100) (profitDistribution_js toggled_js) =
       Value [(''business-savings'', Finite 19),
      (''reinvestment'', Finite 14.25),
      (''personal'', Finite 23.75),
      (''emergency'', Finite 9.5),
      (''baby'', Finite 4.75),
      (''general-savings'', Finite 9.5),
      (''misc'', Finite 9.5),
      (''taxes'', Finite 5)]
   \<and> foldl jadd (Finite 0)
         [Finite 19, Finite 14.25, Finite 23.75, Finite 9.5, Finite 4.75, Finite 9.5, Finite 9.5, Finite 5]
       = Finite 95.25"
proof (intro conjI)
  show "toggleTaxFund_js True 1 (initial_state_js 0) = Done toggled_js"
    unfolding toggled_js_def by (rule state_of_Done [OF toggle_initial, symmetric])
  show "profitDistribution_js toggled_js =
     [\<lparr>fundId_js = ''business-savings'', percentage_js = Finite 19\<rparr>,
      \<lparr>fundId_js = ''reinvestment'', percentage_js = Finite 14.25\<rparr>,
      \<lparr>fundId_js = ''personal'', percentage_js = Finite 23.75\<rparr>,
      \<lparr>fundId_js = ''emergency'', percentage_js = Finite 9.5\<rparr>,
      \<lparr>fundId_js = ''baby'', percentage_js = Finite 4.75\<rparr>,
      \<lparr>fundId_js = ''general-savings'', percentage_js = Finite 9.5\<rparr>,
      \<lparr>fundId_js = ''misc'', percentage_js = Finite 9.5\<rparr>,
      \<lparr>fundId_js = ''taxes'', percentage_js = Finite 4.75\<rparr>,
      \<lparr>fundId_js = ''taxes'', percentage_js = Finite 5\<rparr>]"
    by (rule toggled_distribution)
  have a: "\<not> jgt (jabs (jsub (Finite 100) (Finite 100))) (double 0.01)"
    by (simp add: jsub_def jgt_def double_eval)
  show "isValid (validateProfitDistribution_js (profitDistribution_js toggled_js))"
    unfolding toggled_distribution validateProfitDistribution_js_def total_toggled
    using a by (simp add: valid_def)
  show "distributeProfit_js (Finite 100) (profitDistribution_js toggled_js) =
       Value [(''business-savings'', Finite 19),
      (''reinvestment'', Finite 14.25),
      (''personal'', Finite 23.75),
      (''emergency'', Finite 9.5),
      (''baby'', Finite 4.75),
      (''general-savings'', Finite 9.5),
      (''misc'', Finite 9.5),
      (''taxes'', Finite 5)]"
    unfolding toggled_distribution distributeProfit_js_cases total_toggled alloc_toggled
    using a by simp
  show "foldl jadd (Finite 0)
         [Finite 19, Finite 14.25, Finite 23.75, Finite 9.5, Finite 4.75, Finite 9.5, Finite 9.5, Finite 5]
       = Finite 95.25"
    by (simp add: double_eval)
qed

section \<open>Deleting a fund\<close>

lemma add_income_006_js:
  "addTransaction_js (income_js 0.06) 0 0 0 ''tx-1'' (initial_state_js 0) = Done after_income_006_js"
  and taxes_after_income_006:
  "funds_js after_income_006_js ''taxes'' =
     Some \<lparr>rest_js = Some \<lparr>name = ''Taxes'', description = ''Tax obligations'',
                          color = Some ''#6B7280'', isTaxFund = Some True,
                          fund_id_js = ''taxes'', createdAt_js = 0\<rparr>,
          currentBalance_js = Some (double (- 0.01)), lifetimeInflow_js = Some (double (- 0.01)),
          lifetimeOutflow_js = Some (Finite 0), updatedAt_js = Some 0\<rparr>"
  and misc_after_income_006:
  "funds_js after_income_006_js ''misc'' =
     Some \<lparr>rest_js = Some \<lparr>name = ''Misc / Flex'', description = ''Discretionary spending'',
                          color = Some ''#EC4899'', isTaxFund = None, fund_id_js = ''misc'',
                          createdAt_js = 0\<rparr>,
          currentBalance_js = Some (double 0.01), lifetimeInflow_js = Some (double 0.01),
          lifetimeOutflow_js = Some (Finite 0), updatedAt_js = Some 0\<rparr>"
  and transactions_after_income_006:
  "list_ex (\<lambda>t. type_js t = EXPENSE \<and> sourceFundId_js t = Some fid)
     (transactions_js after_income_006_js) = False"
proof -
  have v: "validateTransaction_js (income_js 0.06) (funds_js (initial_state_js 0)) 0 = Value valid"
    by (rule income_js_valid [OF double_006 _ double_006_fix]) simp
  have t: "type_js (income_js 0.06) = INCOME" by (simp add: income_js_def)
  have p: "calculateProfit_js (amount_js (income_js 0.06)) (costOfProduction_js (income_js 0.06))
      = Value (double 0.06)"
    by (rule income_js_profit [OF double_006 _ double_006_fix]) simp
  have d: "distributeProfit_js (double 0.06) (profitDistribution_js (initial_state_js 0))
      = Value (distribute_loop_js (double 0.06) (distribution_js DEFAULT_DISTRIBUTION) []
                 (double 0.06))"
    by (simp add: initial_state_js_def default_accepted)
  note a = addTransaction_js_income [OF v valid_isValid t p d, of 0 0 "''tx-1''"]
  show "addTransaction_js (income_js 0.06) 0 0 0 ''tx-1'' (initial_state_js 0) = Done after_income_006_js"
    unfolding after_income_006_js_def by (rule state_of_Done [OF a, symmetric])
  show "funds_js after_income_006_js ''taxes'' =
     Some \<lparr>rest_js = Some \<lparr>name = ''Taxes'', description = ''Tax obligations'',
                          color = Some ''#6B7280'', isTaxFund = Some True,
                          fund_id_js = ''taxes'', createdAt_js = 0\<rparr>,
          currentBalance_js = Some (double (- 0.01)), lifetimeInflow_js = Some (double (- 0.01)),
          lifetimeOutflow_js = Some (Finite 0), updatedAt_js = Some 0\<rparr>"
    unfolding after_income_006_js_def a alloc_006
    by (simp add: state_of_def initial_state_js_def credit_js_def get_js_def DEFAULT_FUNDS_def
        fund_js_def to_number_def double_eval)
  show "funds_js after_income_006_js ''misc'' =
     Some \<lparr>rest_js = Some \<lparr>name = ''Misc / Flex'', description = ''Discretionary spending'',
                          color = Some ''#EC4899'', isTaxFund = None, fund_id_js = ''misc'',
                          createdAt_js = 0\<rparr>,
          currentBalance_js = Some (double 0.01), lifetimeInflow_js = Some (double 0.01),
          lifetimeOutflow_js = Some (Finite 0), updatedAt_js = Some 0\<rparr>"
    unfolding after_income_006_js_def a alloc_006
    by (simp add: state_of_def initial_state_js_def credit_js_def get_js_def DEFAULT_FUNDS_def
        fund_js_def to_number_def double_eval)
  show "list_ex (\<lambda>t. type_js t = EXPENSE \<and> sourceFundId_js t = Some fid)
     (transactions_js after_income_006_js) = False"
    unfolding after_income_006_js_def a
    by (simp add: state_of_def initial_state_js_def t)
qed

lemma deleteFund_js_completes:
  "get_js (funds_js s) fid = Some f \<Longrightarrow>
   jgt (to_number (currentBalance_js f)) (Finite 0) = False \<Longrightarrow>
   list_ex (\<lambda>t. type_js t = EXPENSE \<and> sourceFundId_js t = Some fid) (transactions_js s) = False \<Longrightarrow>
   deleteFund_js fid now s =
     Done (s\<lparr>funds_js := (funds_js s)(fid := None),
             profitDistribution_js := filter (\<lambda>d. fundId_js d \<noteq> fid) (profitDistribution_js s),
             lastUpdated_js := now\<rparr>)"
  by (simp add: deleteFund_js_def)

text \<open>
  Claim C8 fails on the code. After an income of 0.06 on the initial state the fund
  \<open>taxes\<close> holds the double -0.01, which is not zero, no transaction names it as its
  source, and \<open>deleteFund\<close> removes it: the test is \<open>currentBalance > 0\<close>. The fund
  \<open>misc\<close>, which holds 0.01, is refused for its remaining balance. The call
  also completes, and sets \<open>lastUpdated\<close>, for the name \<open>constructor\<close>, which is no
  fund; for a name that the collection neither holds nor inherits it throws a
  \<open>TypeError\<close>.
\<close>

theorem fund_with_nonzero_balance_deleted:
  "addTransaction_js (income_js 0.06) 0 0 0 ''tx-1'' (initial_state_js 0) = Done after_income_006_js
   \<and> funds_js after_income_006_js ''taxes'' =
       Some \<lparr>rest_js = Some \<lparr>name = ''Taxes'', description = ''Tax obligations'',
                          color = Some ''#6B7280'', isTaxFund = Some True,
                          fund_id_js = ''taxes'', createdAt_js = 0\<rparr>,
          currentBalance_js = Some (double (- 0.01)), lifetimeInflow_js = Some (double (- 0.01)),
          lifetimeOutflow_js = Some (Finite 0), updatedAt_js = Some 0\<rparr>
   \<and> \<not> strict_equal (double (- 0.01)) (Finite 0)
   \<and> deleteFund_js ''taxes'' 1 after_income_006_js =
       Done (after_income_006_js
         \<lparr>funds_js := (funds_js after_income_006_js)(''taxes'' := None),
          profitDistribution_js :=
            filter (\<lambda>d. fundId_js d \<noteq> ''taxes'') (profitDistribution_js after_income_006_js),
          lastUpdated_js := 1\<rparr>)
   \<and> map_option currentBalance_js (funds_js after_income_006_js ''misc'')
       = Some (Some (double 0.01))
   \<and> deleteFund_js ''misc'' 1 after_income_006_js =
       Thrown (Error (Literal ''Cannot delete fund with remaining balance'')) after_income_006_js
   \<and> funds_js (initial_state_js 0) ''constructor'' = None
   \<and> deleteFund_js ''constructor'' 1 (initial_state_js 0) =
       Done ((initial_state_js 0)
         \<lparr>funds_js := (funds_js (initial_state_js 0))(''constructor'' := None),
          profitDistribution_js :=
            filter (\<lambda>d. fundId_js d \<noteq> ''constructor'') (profitDistribution_js (initial_state_js 0)),
          lastUpdated_js := 1\<rparr>)
   \<and> deleteFund_js ''ghost'' 1 (initial_state_js 0) = Thrown TypeError (initial_state_js 0)"
proof (intro conjI)
  show "addTransaction_js (income_js 0.06) 0 0 0 ''tx-1'' (initial_state_js 0) = Done after_income_006_js"
    by (rule add_income_006_js)
  show "funds_js after_income_006_js ''taxes'' =
       Some \<lparr>rest_js = Some \<lparr>name = ''Taxes'', description = ''Tax obligations'',
                          color = Some ''#6B7280'', isTaxFund = Some True,
                          fund_id_js = ''taxes'', createdAt_js = 0\<rparr>,
          currentBalance_js = Some (double (- 0.01)), lifetimeInflow_js = Some (double (- 0.01)),
          lifetimeOutflow_js = Some (Finite 0), updatedAt_js = Some 0\<rparr>"
    by (rule taxes_after_income_006)
  show "\<not> strict_equal (double (- 0.01)) (Finite 0)"
    by (simp add: double_eval)
  note g = get_js_own [where fs = "funds_js after_income_006_js" and k = "''taxes''",
      OF taxes_after_income_006]
  show "deleteFund_js ''taxes'' 1 after_income_006_js =
       Done (after_income_006_js
         \<lparr>funds_js := (funds_js after_income_006_js)(''taxes'' := None),
          profitDistribution_js :=
            filter (\<lambda>d. fundId_js d \<noteq> ''taxes'') (profitDistribution_js after_income_006_js),
          lastUpdated_js := 1\<rparr>)"
    by (rule deleteFund_js_completes [OF g _ transactions_after_income_006])
      (unfold double_neg_001, simp add: to_number_def jgt_def)
  show "map_option currentBalance_js (funds_js after_income_006_js ''misc'')
       = Some (Some (double 0.01))"
    by (simp add: misc_after_income_006)
  note m = get_js_own [where fs = "funds_js after_income_006_js" and k = "''misc''",
      OF misc_after_income_006]
  have p: "jgt (double 0.01) (Finite 0)"
    unfolding double_001 by (simp add: jgt_def)
  show "deleteFund_js ''misc'' 1 after_income_006_js =
       Thrown (Error (Literal ''Cannot delete fund with remaining balance'')) after_income_006_js"
    using p by (simp add: deleteFund_js_def m to_number_def)
  show "funds_js (initial_state_js 0) ''constructor'' = None"
    by (rule constructor_initial)
  note c = get_js_constructor [where fs = "funds_js (initial_state_js 0)", OF constructor_initial]
  show "deleteFund_js ''constructor'' 1 (initial_state_js 0) =
       Done ((initial_state_js 0)
         \<lparr>funds_js := (funds_js (initial_state_js 0))(''constructor'' := None),
          profitDistribution_js :=
            filter (\<lambda>d. fundId_js d \<noteq> ''constructor'') (profitDistribution_js (initial_state_js 0)),
          lastUpdated_js := 1\<rparr>)"
    by (rule deleteFund_js_completes [OF c])
      (simp_all add: no_properties_def to_number_def jgt_def initial_state_js_def)
  show "deleteFund_js ''ghost'' 1 (initial_state_js 0) = Thrown TypeError (initial_state_js 0)"
    by (simp add: deleteFund_js_def get_js_def Object_prototype_names_def initial_state_js_def
        DEFAULT_FUNDS_def)
qed

end
